theory Spec2Isabelle
  imports Complex_Main "HOL-Library.Sublist" "HOL-Library.AList"
begin

section \<open>Tiered store (\<open>safeStorage\<close>)\<close>

text \<open>
  The plugin reaches three backing stores: \<open>localStorage\<close>, \<open>sessionStorage\<close> and the object
  \<open>window._memoryStorage\<close>. A web storage object is either falsy (\<open>Missing\<close>: the property is
  \<open>undefined\<close> or \<open>null\<close>), or every access to it throws (\<open>Throwing\<close>: a security error on
  reading the global, a quota error on writing), or it works and holds a finite map from keys to
  strings. \<open>window._memoryStorage\<close> is \<open>undefined\<close> (\<open>None\<close>) until the first write creates it.
  Keys and values are strings, as at every call site of the plugin. The memory object is an
  object literal, so a key that names a member of \<open>Object.prototype\<close> (\<open>toString\<close>,
  \<open>__proto__\<close>, ...) would reach that member; such keys are left out of the model of the
  memory tier. The plugin's own keys, \<open>a11ySettings\<close> and \<open>audioAlertsEnabled\<close>, are no such
  names.
\<close>

datatype web_storage = Missing | Throwing | Available "string \<rightharpoonup> string"

record storage_env =
  localStorage :: web_storage
  sessionStorage :: web_storage
  memoryStorage :: "(string \<rightharpoonup> string) option"

text \<open>
  \<open>safeStorage.setItem\<close>: the outer \<open>try\<close> tests \<open>localStorage\<close> for truthiness and writes to it;
  only when it is falsy does the \<open>else\<close> branch try \<open>sessionStorage\<close>, whose failure (a throw,
  or a \<open>TypeError\<close> on calling a method of \<open>undefined\<close>) is caught by the inner \<open>catch\<close>, which
  writes to the memory object. A throw from \<open>localStorage\<close> itself lands in the outer \<open>catch\<close>,
  which only calls \<open>console.warn\<close>.
\<close>

definition memory_write :: "string \<Rightarrow> string \<Rightarrow> storage_env \<Rightarrow> storage_env" where
  "memory_write key val st =
     st\<lparr>memoryStorage :=
          Some ((case memoryStorage st of None \<Rightarrow> Map.empty | Some m \<Rightarrow> m)(key \<mapsto> val))\<rparr>"

definition safeStorage_setItem :: "string \<Rightarrow> string \<Rightarrow> storage_env \<Rightarrow> storage_env" where
  "safeStorage_setItem key val st =
     (case localStorage st of
        Available m \<Rightarrow> st\<lparr>localStorage := Available (m(key \<mapsto> val))\<rparr>
      | Missing \<Rightarrow>
          (case sessionStorage st of
             Available m \<Rightarrow> st\<lparr>sessionStorage := Available (m(key \<mapsto> val))\<rparr>
           | Missing \<Rightarrow> memory_write key val st
           | Throwing \<Rightarrow> memory_write key val st)
      | Throwing \<Rightarrow> st)"

text \<open>
  \<open>safeStorage.getItem\<close>: same shape. The memory read is
  \<open>window._memoryStorage && window._memoryStorage[key] || null\<close>, so a stored empty string, being
  falsy, reads as \<open>null\<close>. The outer \<open>catch\<close> returns \<open>null\<close>.
\<close>

definition memory_read :: "string \<Rightarrow> storage_env \<Rightarrow> string option" where
  "memory_read key st =
     (case memoryStorage st of
        None \<Rightarrow> None
      | Some m \<Rightarrow> (case m key of None \<Rightarrow> None | Some v \<Rightarrow> if v = [] then None else Some v))"

definition safeStorage_getItem :: "string \<Rightarrow> storage_env \<Rightarrow> string option" where
  "safeStorage_getItem key st =
     (case localStorage st of
        Available m \<Rightarrow> m key
      | Missing \<Rightarrow>
          (case sessionStorage st of
             Available m \<Rightarrow> m key
           | Missing \<Rightarrow> memory_read key st
           | Throwing \<Rightarrow> memory_read key st)
      | Throwing \<Rightarrow> None)"

text \<open>\<open>safeStorage.removeItem\<close>: the memory branch deletes the key only when the object exists.\<close>

definition memory_delete :: "string \<Rightarrow> storage_env \<Rightarrow> storage_env" where
  "memory_delete key st =
     (case memoryStorage st of
        None \<Rightarrow> st
      | Some m \<Rightarrow> st\<lparr>memoryStorage := Some (m(key := None))\<rparr>)"

definition safeStorage_removeItem :: "string \<Rightarrow> storage_env \<Rightarrow> storage_env" where
  "safeStorage_removeItem key st =
     (case localStorage st of
        Available m \<Rightarrow> st\<lparr>localStorage := Available (m(key := None))\<rparr>
      | Missing \<Rightarrow>
          (case sessionStorage st of
             Available m \<Rightarrow> st\<lparr>sessionStorage := Available (m(key := None))\<rparr>
           | Missing \<Rightarrow> memory_delete key st
           | Throwing \<Rightarrow> memory_delete key st)
      | Throwing \<Rightarrow> st)"

section \<open>Strings\<close>

text \<open>
  A character stands for the UTF-16 code unit of the same number, so the strings here are those
  whose code units lie below 256; every string the plugin compares against is ASCII.
  \<open>String.prototype.trim\<close> strips white space and line terminators (of these code units: tab to
  carriage return, space and the no-break space), the DOM splits a class attribute at ASCII
  white space (which leaves out the vertical tab), and the regular-expression class \<open>\w\<close> is
  the ASCII letters, the digits and the underscore.
\<close>

definition js_whitespace :: "char \<Rightarrow> bool" where
  "js_whitespace c = (let n = (of_char c :: nat) in (9 \<le> n \<and> n \<le> 13) \<or> n = 32 \<or> n = 160)"

definition ascii_whitespace :: "char \<Rightarrow> bool" where
  "ascii_whitespace c = (let n = (of_char c :: nat) in n = 9 \<or> n = 10 \<or> n = 12 \<or> n = 13 \<or> n = 32)"

definition word_char :: "char \<Rightarrow> bool" where
  "word_char c =
     (let n = (of_char c :: nat)
      in (48 \<le> n \<and> n \<le> 57) \<or> (65 \<le> n \<and> n \<le> 90) \<or> n = 95 \<or> (97 \<le> n \<and> n \<le> 122))"

definition trim :: "string \<Rightarrow> string" where
  "trim s = rev (dropWhile js_whitespace (rev (dropWhile js_whitespace s)))"

text \<open>
  \<open>toLowerCase\<close> maps \<open>A\<close> to \<open>Z\<close> and the capital letters from U+00C0 to U+00DE (the
  multiplication sign U+00D7 is none) to the code unit 32 above.
\<close>

definition lower_char :: "char \<Rightarrow> char" where
  "lower_char c =
     (let n = (of_char c :: nat)
      in if (65 \<le> n \<and> n \<le> 90) \<or> (192 \<le> n \<and> n \<le> 222 \<and> n \<noteq> 215) then char_of (n + 32)
         else c)"

definition toLowerCase :: "string \<Rightarrow> string" where
  "toLowerCase s = map lower_char s"

text \<open>\<open>s.includes(p)\<close>: \<open>p\<close> occurs in \<open>s\<close> as a contiguous substring.\<close>

fun str_includes :: "string \<Rightarrow> string \<Rightarrow> bool" where
  "str_includes [] p = (p = [])"
| "str_includes (c # cs) p = (prefix p (c # cs) \<or> str_includes cs p)"

text \<open>The decimal digits of a natural number, for array indices and integer values.\<close>

fun digits :: "nat \<Rightarrow> string" where
  "digits n =
     (if n < 10 then [char_of (48 + n)] else digits (n div 10) @ [char_of (48 + n mod 10)])"

declare digits.simps [simp del]

text \<open>Joining strings with a separator, as \<open>Array.prototype.join\<close> and the DOM serializer do.\<close>

fun join :: "string \<Rightarrow> string list \<Rightarrow> string" where
  "join sep [] = []"
| "join sep [t] = t"
| "join sep (t # u # ts) = t @ sep @ join sep (u # ts)"

section \<open>JavaScript values\<close>

text \<open>
  The values a settings record can hold are those \<open>JSON.parse\<close> produces, together with
  \<open>undefined\<close> (what reading an absent property yields). An object is its list of own enumerable
  properties in insertion order. The plugin never computes with a number; it only stores it,
  converts it to a string and tests it for truthiness, so numbers are modelled as integers (the
  text size is an integer percentage), printed in decimal, as JavaScript prints an integer of fewer
  than twenty-two digits.
\<close>

datatype jsvalue =
    Undefined
  | Null
  | Bool bool
  | Num int
  | Str string
  | Arr "jsvalue list"
  | Obj "(string \<times> jsvalue) list"

type_synonym jsobject = "(string \<times> jsvalue) list"

definition bool_toString :: "bool \<Rightarrow> string" where
  "bool_toString b = (if b then ''true'' else ''false'')"

definition int_toString :: "int \<Rightarrow> string" where
  "int_toString i = (if i < 0 then CHR ''-'' # digits (nat (- i)) else digits (nat i))"

text \<open>
  String conversion, as a template literal, \<open>+\<close> with a string operand or the assignment to a
  string attribute of the DOM performs it. An array joins its elements with commas, \<open>null\<close> and
  \<open>undefined\<close> elements printing as nothing; a plain object prints as \<open>[object Object]\<close>.
\<close>

fun js_toString :: "jsvalue \<Rightarrow> string" where
  "js_toString Undefined = ''undefined''"
| "js_toString Null = ''null''"
| "js_toString (Bool b) = bool_toString b"
| "js_toString (Num i) = int_toString i"
| "js_toString (Str s) = s"
| "js_toString (Arr vs) =
     join '','' (map (\<lambda>v. if v = Undefined \<or> v = Null then [] else js_toString v) vs)"
| "js_toString (Obj kvs) = ''[object Object]''"

text \<open>
  The conversion of an object calls its \<open>toString\<close> and \<open>valueOf\<close>. An object with an own
  property \<open>toString\<close> has a value there that cannot be called, and the inherited \<open>valueOf\<close>
  returns the object itself, so the conversion throws a \<open>TypeError\<close>; so does the conversion of
  an array that reaches such an object among its elements. Every other value has the string
  form above.
\<close>

datatype js_error = SyntaxError | InvalidCharacterError | TypeError

fun string_convertible :: "jsvalue \<Rightarrow> bool" where
  "string_convertible (Obj kvs) = (map_of kvs ''toString'' = None)"
| "string_convertible (Arr vs) = list_all string_convertible vs"
| "string_convertible v = True"

definition ToString :: "jsvalue \<Rightarrow> js_error + string" where
  "ToString v = (if string_convertible v then Inr (js_toString v) else Inl TypeError)"

fun js_truthy :: "jsvalue \<Rightarrow> bool" where
  "js_truthy Undefined = False"
| "js_truthy Null = False"
| "js_truthy (Bool b) = b"
| "js_truthy (Num i) = (i \<noteq> 0)"
| "js_truthy (Str s) = (s \<noteq> [])"
| "js_truthy (Arr vs) = True"
| "js_truthy (Obj kvs) = True"

text \<open>
  Reading and writing an own property of the settings record. Apart from \<open>Object.assign\<close>,
  the script reads and writes the record under names of its literal only; they are own
  properties from the start and nothing deletes a property, so these reads never reach the
  prototype. A write to an own property replaces its value in place, a write under a new name
  appends the property.
\<close>

definition js_get :: "jsobject \<Rightarrow> string \<Rightarrow> jsvalue" where
  "js_get obj k = (case map_of obj k of None \<Rightarrow> Undefined | Some v \<Rightarrow> v)"

definition js_set :: "string \<Rightarrow> jsvalue \<Rightarrow> jsobject \<Rightarrow> jsobject" where
  "js_set k v obj = AList.update k v obj"

text \<open>
  The prototype of the record: \<open>Object.prototype\<close>, as for every object literal, until a write
  replaces it by \<open>null\<close> or by a parsed object or array (whose own prototype is the built-in
  one).
\<close>

datatype prototype =
    Object_prototype
  | Null_prototype
  | Object_value "(string \<times> jsvalue) list"
  | Array_value "jsvalue list"

text \<open>
  A write under a name the target does not own looks the name up along the prototype chain.
  What it finds is a data property, or nothing, and the target gets an own property, except
  for \<open>__proto__\<close>: on \<open>Object.prototype\<close> that is an accessor, and its setter makes an object
  or \<open>null\<close> the target's prototype and ignores every other value. The accessor is reached
  unless the chain ends before it (a \<open>null\<close> prototype) or an object on the way owns a property
  of that name (which \<open>JSON.parse\<close> creates as a data property).
\<close>

fun inherits_proto_setter :: "prototype \<Rightarrow> bool" where
  "inherits_proto_setter Object_prototype = True"
| "inherits_proto_setter Null_prototype = False"
| "inherits_proto_setter (Object_value kvs) = (map_of kvs ''__proto__'' = None)"
| "inherits_proto_setter (Array_value vs) = True"

fun set_prototype :: "jsvalue \<Rightarrow> prototype \<Rightarrow> prototype" where
  "set_prototype Null proto = Null_prototype"
| "set_prototype (Obj kvs) proto = Object_value kvs"
| "set_prototype (Arr vs) proto = Array_value vs"
| "set_prototype v proto = proto"

definition put_property :: "string \<Rightarrow> jsvalue \<Rightarrow> jsobject \<times> prototype \<Rightarrow> jsobject \<times> prototype" where
  "put_property k v target =
     (if k = ''__proto__'' \<and> map_of (fst target) k = None \<and> inherits_proto_setter (snd target)
      then (fst target, set_prototype v (snd target))
      else (js_set k v (fst target), snd target))"

text \<open>
  \<open>Object.assign(target, source)\<close> copies every own enumerable property of the source, in order,
  with an ordinary property write. \<open>null\<close>, \<open>undefined\<close>, booleans and numbers have none; a string
  has its characters and an array its elements, under their indices.
\<close>

fun own_properties :: "jsvalue \<Rightarrow> (string \<times> jsvalue) list" where
  "own_properties (Obj kvs) = kvs"
| "own_properties (Arr vs) = zip (map digits [0..<length vs]) vs"
| "own_properties (Str s) = zip (map digits [0..<length s]) (map (\<lambda>c. Str [c]) s)"
| "own_properties v = []"

definition Object_assign :: "jsobject \<times> prototype \<Rightarrow> jsvalue \<Rightarrow> jsobject \<times> prototype" where
  "Object_assign target source =
     fold (\<lambda>(k, v). put_property k v) (own_properties source) target"

section \<open>Accessibility state\<close>

text \<open>The record \<open>a11yState\<close> as the script initialises it.\<close>

definition a11yState_init :: jsobject where
  "a11yState_init =
     [(''highContrast'', Bool False),
      (''textSize'', Num 100),
      (''colorScheme'', Str ''default''),
      (''enhancedFocus'', Bool False),
      (''reduceMotion'', Bool False),
      (''simpleLanguage'', Bool False),
      (''readingGuide'', Bool False),
      (''keyboardShortcuts'', Bool True),
      (''tabOrder'', Bool False),
      (''screenReaderMode'', Str ''auto''),
      (''announceChanges'', Bool True),
      (''ariaLive'', Bool True),
      (''voiceControl'', Bool False)]"

text \<open>The twelve keys the specification declares (the code has \<open>voiceControl\<close> besides).\<close>

definition declared_keys :: "string list" where
  "declared_keys =
     [''highContrast'', ''textSize'', ''colorScheme'', ''enhancedFocus'', ''reduceMotion'',
      ''simpleLanguage'', ''readingGuide'', ''keyboardShortcuts'', ''tabOrder'',
      ''screenReaderMode'', ''announceChanges'', ''ariaLive'']"

section \<open>Class lists\<close>

text \<open>
  \<open>element.className\<close> is a string. \<open>classList\<close> reads it as an ordered set of tokens (split at
  ASCII white space, the first occurrence of a token kept) and, after \<open>add\<close> or \<open>remove\<close>,
  writes the set back joined by single spaces.
\<close>

function class_tokens :: "string \<Rightarrow> string list" where
  "class_tokens [] = []"
| "class_tokens (c # cs) =
     (if ascii_whitespace c then class_tokens cs
      else (c # takeWhile (\<lambda>x. \<not> ascii_whitespace x) cs)
             # class_tokens (dropWhile (\<lambda>x. \<not> ascii_whitespace x) cs))"
  by pat_completeness auto
termination
  by (relation "measure length") (auto simp: less_Suc_eq_le length_dropWhile_le)

definition ordered_set :: "'a list \<Rightarrow> 'a list" where
  "ordered_set xs = rev (remdups (rev xs))"

definition token_set :: "string \<Rightarrow> string list" where
  "token_set cls = ordered_set (class_tokens cls)"

definition serialize_tokens :: "string list \<Rightarrow> string" where
  "serialize_tokens ts = join '' '' ts"

definition add_token :: "string \<Rightarrow> string \<Rightarrow> string" where
  "add_token tok cls =
     serialize_tokens
       (if tok \<in> set (token_set cls) then token_set cls else token_set cls @ [tok])"

definition remove_token :: "string \<Rightarrow> string \<Rightarrow> string" where
  "remove_token tok cls = serialize_tokens (removeAll tok (token_set cls))"

text \<open>
  \<open>classList.add\<close> refuses an empty token and a token with white space in it. The plugin's
  constant tokens (\<open>high-contrast\<close>, \<open>active\<close>, ...) pass this check, so the functions below
  apply \<open>add_token\<close> to them directly; tokens built from a value go through \<open>classList_add\<close>.
\<close>

definition classList_add :: "string \<Rightarrow> string \<Rightarrow> js_error + string" where
  "classList_add tok cls =
     (if tok = [] then Inl SyntaxError
      else if list_ex ascii_whitespace tok then Inl InvalidCharacterError
      else Inr (add_token tok cls))"

text \<open>
  \<open>className.replace(/color-\w+/g, '')\<close> and \<open>className.replace(/sr-optimize-\w+/g, '')\<close>:
  scanning from the left, wherever the marker prefix followed by at least one word character
  stands, the prefix and the longest run of word characters after it are dropped, and the scan
  goes on behind them.
\<close>

definition match_marker :: "string \<Rightarrow> string \<Rightarrow> string option" where
  "match_marker pre s =
     (if prefix pre s \<and> takeWhile word_char (drop (length pre) s) \<noteq> []
      then Some (dropWhile word_char (drop (length pre) s)) else None)"

function strip_marker :: "string \<Rightarrow> string \<Rightarrow> string" where
  "strip_marker pre [] = []"
| "strip_marker pre (c # cs) =
     (case match_marker pre (c # cs) of
        Some rest \<Rightarrow> strip_marker pre rest
      | None \<Rightarrow> c # strip_marker pre cs)"
  by pat_completeness auto
termination
proof (relation "measure (\<lambda>(pre, s). length s)")
  show "wf (measure (\<lambda>(pre, s). length s))" by simp
next
  fix pre :: string and c :: char and cs rest :: string
  assume m: "match_marker pre (c # cs) = Some rest"
  define t where "t = drop (length pre) (c # cs)"
  from m have r: "rest = dropWhile word_char t" and ne: "takeWhile word_char t \<noteq> []"
    by (auto simp: match_marker_def t_def split: if_splits)
  have "length (takeWhile word_char t) + length rest = length t"
    unfolding r by (metis length_append takeWhile_dropWhile_id)
  moreover from ne have "0 < length (takeWhile word_char t)" by simp
  moreover have "length t \<le> length (c # cs)" by (simp add: t_def)
  ultimately have "length rest < length (c # cs)" by linarith
  then show "((pre, rest), (pre, c # cs)) \<in> measure (\<lambda>(pre, s). length s)" by simp
next
  fix pre :: string and c :: char and cs :: string
  show "((pre, cs), (pre, c # cs)) \<in> measure (\<lambda>(pre, s). length s)" by simp
qed

section \<open>Document nodes\<close>

text \<open>
  The part of the document the plugin reads text from: a node is a text node or an element with
  a tag, attributes and child nodes. \<open>el.children\<close> are the element children only,
  \<open>el.textContent\<close> is the text of all descendants, and assigning \<open>el.textContent\<close> replaces the
  children by one text node (none for the empty string).
\<close>

datatype node = TextNode string | Element string "(string \<times> string) list" "node list"

fun is_element :: "node \<Rightarrow> bool" where
  "is_element (TextNode s) = False"
| "is_element (Element tag attrs kids) = True"

fun textContent :: "node \<Rightarrow> string" where
  "textContent (TextNode s) = s"
| "textContent (Element tag attrs kids) = concat (map textContent kids)"

definition text_children :: "string \<Rightarrow> node list" where
  "text_children s = (if s = [] then [] else [TextNode s])"

definition getAttribute :: "string \<Rightarrow> (string \<times> string) list \<Rightarrow> string option" where
  "getAttribute name attrs = map_of attrs name"

definition setAttribute :: "string \<Rightarrow> string \<Rightarrow> (string \<times> string) list \<Rightarrow> (string \<times> string) list" where
  "setAttribute name val attrs = AList.update name val attrs"

definition removeAttribute :: "string \<Rightarrow> (string \<times> string) list \<Rightarrow> (string \<times> string) list" where
  "removeAttribute name attrs = AList.delete name attrs"

text \<open>An attribute read used as a condition: \<open>null\<close> and the empty string are falsy.\<close>

definition attr_truthy :: "string \<Rightarrow> (string \<times> string) list \<Rightarrow> bool" where
  "attr_truthy name attrs = (case getAttribute name attrs of None \<Rightarrow> False | Some v \<Rightarrow> v \<noteq> [])"

section \<open>Page state and environment\<close>

text \<open>
  The live region \<open>#a11y-live-region\<close> (a childless \<open>div\<close>), the two overlay elements and the
  controls the plugin finds by id are kept as fields of their own, beside the content tree.
\<close>

record live_region =
  aria_live :: string
  lr_text :: string
  lr_original :: "string option"

datatype css_value = Px rat | Literal string

record overlay =
  ov_class :: string
  ov_top :: "css_value option"
  ov_left :: "css_value option"
  ov_width :: "css_value option"
  ov_height :: "css_value option"

record widget =
  w_checked :: bool
  w_aria_checked :: "string option"
  w_value :: string
  w_text :: string

record rect =
  r_top :: rat
  r_left :: rat
  r_width :: rat
  r_height :: rat

record tone =
  frequency :: rat
  duration :: rat
  waveform :: string
  volume :: rat

datatype timer_action = ClearLiveRegion | PlayTone tone | PlayInfoSound

datatype ctx_state = Suspended | Running

datatype audio_ctor = CtorThrows | CtorYields ctx_state

text \<open>
  Everything the script's functions read or write. \<open>a11yState\<close> holds the own properties of
  the settings record and \<open>a11yState_prototype\<close> its prototype. \<open>clock\<close> is the current time in
  milliseconds and \<open>timers\<close> the pending \<open>setTimeout\<close> callbacks with their due times, in the
  order they were set. \<open>tones\<close> logs every tone handed to the synthesis context.
  \<open>body_appended\<close> logs the class of every element the script has appended to the body.
  \<open>listeners\<close> are the document's event listeners, as pairs of event type and handler name.
\<close>

record page =
  a11yState :: jsobject
  a11yState_prototype :: prototype
  store :: storage_env
  clock :: nat
  timers :: "(nat \<times> timer_action) list"
  audioEnabled :: bool
  audioContext :: "ctx_state option"
  tones :: "tone list"
  body_class :: string
  body_fontSize :: string
  body_appended :: "string list"
  liveRegion :: "live_region option"
  content :: "node list"
  controls :: "string \<rightharpoonup> widget"
  readingGuideEl :: "overlay option"
  tabIndicatorEl :: "overlay option"
  listeners :: "(string \<times> string) list"
  reload_requested :: bool

text \<open>
  What the browser supplies: the JSON codec (\<open>JSON.parse\<close> throws on malformed text, here
  \<open>None\<close>), the user agent string, the number of speech synthesis voices (\<open>None\<close> when
  \<open>window.speechSynthesis\<close> is absent), the audio context constructor (\<open>None\<close> when neither
  \<open>AudioContext\<close> nor \<open>webkitAudioContext\<close> exists), the window height and the bounding box of
  the focused element (\<open>None\<close> when nothing but the body has the focus).
\<close>

record env =
  JSON_parse :: "string \<Rightarrow> jsvalue option"
  JSON_stringify :: "jsobject \<Rightarrow> string"
  userAgent :: string
  speechVoices :: "nat option"
  AudioContextClass :: "audio_ctor option"
  innerHeight :: rat
  activeElement :: "rect option"

text \<open>A call either completes or throws; either way it leaves a page state behind.\<close>

datatype outcome = Completed page | Thrown js_error page

fun final_page :: "outcome \<Rightarrow> page" where
  "final_page (Completed p) = p"
| "final_page (Thrown e p) = p"

fun completed :: "outcome \<Rightarrow> bool" where
  "completed (Completed p) = True"
| "completed (Thrown e p) = False"

fun and_then :: "outcome \<Rightarrow> (page \<Rightarrow> outcome) \<Rightarrow> outcome" where
  "and_then (Completed p) f = f p"
| "and_then (Thrown e p) f = Thrown e p"

section \<open>Timers\<close>

text \<open>\<open>setTimeout(callback, delay)\<close> queues the callback for \<open>delay\<close> milliseconds from now.\<close>

definition setTimeout :: "timer_action \<Rightarrow> nat \<Rightarrow> page \<Rightarrow> page" where
  "setTimeout action delay p = p\<lparr>timers := timers p @ [(clock p + delay, action)]\<rparr>"

section \<open>Audio alerts\<close>

text \<open>
  \<open>initAudioContext\<close> constructs the context once; a constructor that throws switches
  \<open>audioEnabled\<close> off. (\<open>resume()\<close> on a suspended context only starts a promise.)
\<close>

definition initAudioContext :: "env \<Rightarrow> page \<Rightarrow> page" where
  "initAudioContext e p =
     (if audioContext p = None then
        (case AudioContextClass e of
           None \<Rightarrow> p
         | Some CtorThrows \<Rightarrow> p\<lparr>audioEnabled := False\<rparr>
         | Some (CtorYields s) \<Rightarrow> p\<lparr>audioContext := Some s\<rparr>)
      else p)"

text \<open>
  \<open>playTone\<close> returns at once when audio is off or there is no context; otherwise it hands one
  enveloped tone to the context inside a \<open>try\<close> whose handler only warns.
\<close>

definition playTone :: "rat \<Rightarrow> rat \<Rightarrow> string \<Rightarrow> rat \<Rightarrow> page \<Rightarrow> page" where
  "playTone f d w v p =
     (if \<not> audioEnabled p then p
      else if audioContext p = None then p
      else p\<lparr>tones := tones p @ [\<lparr>frequency = f, duration = d, waveform = w, volume = v\<rparr>]\<rparr>)"

definition playSuccessSound :: "page \<Rightarrow> page" where
  "playSuccessSound p =
     (if \<not> audioEnabled p then p
      else setTimeout (PlayTone \<lparr>frequency = 783.99, duration = 0.2, waveform = ''sine'', volume = 0.25\<rparr>) 300
             (setTimeout (PlayTone \<lparr>frequency = 659.25, duration = 0.15, waveform = ''sine'', volume = 0.25\<rparr>) 150
                (playTone 523.25 0.15 ''sine'' 0.25 p)))"

definition playErrorSound :: "page \<Rightarrow> page" where
  "playErrorSound p =
     (if \<not> audioEnabled p then p
      else setTimeout (PlayTone \<lparr>frequency = 261.63, duration = 0.2, waveform = ''square'', volume = 0.3\<rparr>) 250
             (setTimeout (PlayTone \<lparr>frequency = 349.23, duration = 0.15, waveform = ''square'', volume = 0.3\<rparr>) 100
                (playTone 440 0.1 ''square'' 0.3 p)))"

definition playInfoSound :: "page \<Rightarrow> page" where
  "playInfoSound p = (if \<not> audioEnabled p then p else playTone 600 0.15 ''sine'' 0.2 p)"

section \<open>Screen reader announcements\<close>

definition ensureLiveRegion :: "page \<Rightarrow> page" where
  "ensureLiveRegion p =
     (case liveRegion p of
        Some lr \<Rightarrow> p
      | None \<Rightarrow>
          p\<lparr>liveRegion := Some \<lparr>aria_live = ''assertive'', lr_text = [], lr_original = None\<rparr>,
            body_appended := body_appended p @ [''sr-only'']\<rparr>)"

definition announceToScreenReader :: "string \<Rightarrow> string \<Rightarrow> page \<Rightarrow> page" where
  "announceToScreenReader message priority p =
     (let p1 = ensureLiveRegion p;
          p2 = p1\<lparr>liveRegion := map_option (\<lambda>lr. lr\<lparr>aria_live := priority\<rparr>) (liveRegion p1)\<rparr>;
          p3 = p2\<lparr>liveRegion := map_option (\<lambda>lr. lr\<lparr>lr_text := message\<rparr>) (liveRegion p2)\<rparr>
      in setTimeout ClearLiveRegion 1000 p3)"

text \<open>The region's text and priority attribute, when the region exists.\<close>

definition live_text :: "page \<Rightarrow> string option" where
  "live_text p = map_option lr_text (liveRegion p)"

definition live_priority :: "page \<Rightarrow> string option" where
  "live_priority p = map_option aria_live (liveRegion p)"

text \<open>The plugin's own calls leave the priority at its default, \<open>polite\<close>.\<close>

definition announce :: "string \<Rightarrow> page \<Rightarrow> page" where
  "announce message p = announceToScreenReader message ''polite'' p"

section \<open>Running timers\<close>

definition run_timer :: "timer_action \<Rightarrow> page \<Rightarrow> page" where
  "run_timer action p =
     (case action of
        ClearLiveRegion \<Rightarrow> p\<lparr>liveRegion := map_option (\<lambda>lr. lr\<lparr>lr_text := []\<rparr>) (liveRegion p)\<rparr>
      | PlayTone t \<Rightarrow> playTone (frequency t) (duration t) (waveform t) (volume t) p
      | PlayInfoSound \<Rightarrow> playInfoSound p)"

text \<open>
  Letting \<open>d\<close> milliseconds pass runs the callbacks that fall due, earliest first and in the order
  they were set among equals. No callback of the plugin sets a timer, so the due ones are known
  beforehand.
\<close>

definition advance :: "nat \<Rightarrow> page \<Rightarrow> page" where
  "advance d p =
     (let deadline = clock p + d;
          due = sort_key fst (filter (\<lambda>(t, a). t \<le> deadline) (timers p));
          later = filter (\<lambda>(t, a). \<not> t \<le> deadline) (timers p);
          q = fold (\<lambda>(t, a) s. run_timer a (s\<lparr>clock := max (clock s) t\<rparr>)) due (p\<lparr>timers := later\<rparr>)
      in q\<lparr>clock := deadline\<rparr>)"

section \<open>Audio preference\<close>

definition set_aria_checked :: "string \<Rightarrow> string \<Rightarrow> page \<Rightarrow> page" where
  "set_aria_checked ident val p =
     (case controls p ident of
        None \<Rightarrow> p
      | Some w \<Rightarrow> p\<lparr>controls := (controls p)(ident \<mapsto> w\<lparr>w_aria_checked := Some val\<rparr>)\<rparr>)"

definition toggleAudioAlerts :: "env \<Rightarrow> page \<Rightarrow> page" where
  "toggleAudioAlerts e p =
     (let p1 = p\<lparr>audioEnabled := \<not> audioEnabled p\<rparr>;
          p2 = (case controls p1 ''audioToggle'' of
                  None \<Rightarrow> p1
                | Some w \<Rightarrow>
                    (let p1a = set_aria_checked ''audioToggle'' (bool_toString (audioEnabled p1)) p1
                     in if audioEnabled p1a
                        then announce ''Audio alerts enabled.''
                               (setTimeout PlayInfoSound 100 (initAudioContext e p1a))
                        else announce ''Audio alerts disabled.'' p1a))
      in p2\<lparr>store := safeStorage_setItem ''audioAlertsEnabled'' (bool_toString (audioEnabled p2)) (store p2)\<rparr>)"

definition loadAudioPreference :: "page \<Rightarrow> page" where
  "loadAudioPreference p =
     (case safeStorage_getItem ''audioAlertsEnabled'' (store p) of
        None \<Rightarrow> p
      | Some saved \<Rightarrow>
          (let p1 = p\<lparr>audioEnabled := (saved = ''true'')\<rparr>
           in set_aria_checked ''audioToggle'' (bool_toString (audioEnabled p1)) p1))"

section \<open>Screen reader detection\<close>

text \<open>
  \<open>detectScreenReader\<close>. The \<open>if\<close> on speech synthesis returns from inside for Apple and Windows
  signatures and falls through otherwise; \<open>early\<close> is that return, when there is one.
\<close>

definition detectScreenReader :: "env \<Rightarrow> jsobject \<Rightarrow> jsvalue" where
  "detectScreenReader e st =
     (if js_get st ''screenReaderMode'' \<noteq> Str ''auto'' then js_get st ''screenReaderMode''
      else
        (let ua = toLowerCase (userAgent e);
             isWindows = str_includes ua ''win'';
             isMac = str_includes ua ''mac'';
             isIOS = (str_includes ua ''iphone'' \<or> str_includes ua ''ipad'' \<or> str_includes ua ''ipod'');
             isAndroid = str_includes ua ''android'';
             isLinux = str_includes ua ''linux'';
             early =
               (if (case speechVoices e of None \<Rightarrow> False | Some n \<Rightarrow> n > 0)
                then (if isMac \<or> isIOS then Some (Str ''voiceover'')
                      else if isWindows then Some (Str ''narrator'') else None)
                else None)
         in case early of
              Some mode \<Rightarrow> mode
            | None \<Rightarrow>
                if isWindows then Str ''nvda''
                else if isMac \<or> isIOS then Str ''voiceover''
                else if isAndroid then Str ''talkback''
                else if isLinux then Str ''orca''
                else Str ''nvda''))"

text \<open>
  The decision order in the specification's words, over an environment descriptor: the stored
  preference, whether speech capability is present, and the four operating system signatures.
\<close>

definition detect_spec :: "jsvalue \<Rightarrow> bool \<Rightarrow> bool \<Rightarrow> bool \<Rightarrow> bool \<Rightarrow> bool \<Rightarrow> jsvalue" where
  "detect_spec preference speech windows apple android linux =
     (if preference \<noteq> Str ''auto'' then preference
      else if speech \<and> apple then Str ''voiceover''
      else if speech \<and> windows then Str ''narrator''
      else if windows then Str ''nvda''
      else if apple then Str ''voiceover''
      else if android then Str ''talkback''
      else if linux then Str ''orca''
      else Str ''nvda'')"

definition has_speech :: "env \<Rightarrow> bool" where
  "has_speech e = (case speechVoices e of None \<Rightarrow> False | Some n \<Rightarrow> n > 0)"

definition os_windows :: "env \<Rightarrow> bool" where
  "os_windows e = str_includes (toLowerCase (userAgent e)) ''win''"

definition os_apple :: "env \<Rightarrow> bool" where
  "os_apple e =
     (let ua = toLowerCase (userAgent e)
      in str_includes ua ''mac'' \<or> str_includes ua ''iphone'' \<or> str_includes ua ''ipad''
         \<or> str_includes ua ''ipod'')"

definition os_android :: "env \<Rightarrow> bool" where
  "os_android e = str_includes (toLowerCase (userAgent e)) ''android''"

definition os_linux :: "env \<Rightarrow> bool" where
  "os_linux e = str_includes (toLowerCase (userAgent e)) ''linux''"

section \<open>Settings persistence\<close>

definition saveA11ySettings :: "env \<Rightarrow> page \<Rightarrow> page" where
  "saveA11ySettings e p =
     p\<lparr>store := safeStorage_setItem ''a11ySettings'' (JSON_stringify e (a11yState p)) (store p)\<rparr>"

definition set_state :: "string \<Rightarrow> jsvalue \<Rightarrow> page \<Rightarrow> page" where
  "set_state k v p = p\<lparr>a11yState := js_set k v (a11yState p)\<rparr>"

section \<open>Simplified language\<close>

definition simpleLanguageMap :: "(string \<times> string) list" where
  "simpleLanguageMap =
     [(''Choose verification mode:'', ''Pick how to verify:''),
      (''Automatic (invisible)'', ''Automatic''),
      (''Passkey / WebAuthn'', ''Use passkey''),
      (''Text question'', ''Text question''),
      (''Keyboard-only'', ''Keyboard only''),
      (''Start verification'', ''Start''),
      (''Submit'', ''Send''),
      (''Cancel'', ''Stop''),
      (''Table of Contents'', ''Contents''),
      (''Back to top'', ''Top''),
      (''Last updated'', ''Updated'')]"

text \<open>
  \<open>simpleLanguageMap[text]\<close> is an ordinary property read on an object literal, so a name the
  object does not own is looked up on \<open>Object.prototype\<close>: its methods are functions and
  \<open>__proto__\<close> is the prototype object, all of them truthy. \<open>dictionary_text\<close> is the string
  that the assignment of a truthy \<open>simpleLanguageMap[text]\<close> to \<open>textContent\<close> writes, and
  \<open>None\<close> when the read is falsy. A built-in function prints as
  \<open>function name() { [native code] }\<close> (engines differ in the white space between the braces).
\<close>

definition Object_prototype_methods :: "(string \<times> string) list" where
  "Object_prototype_methods =
     [(''constructor'', ''Object''),
      (''hasOwnProperty'', ''hasOwnProperty''),
      (''isPrototypeOf'', ''isPrototypeOf''),
      (''propertyIsEnumerable'', ''propertyIsEnumerable''),
      (''toLocaleString'', ''toLocaleString''),
      (''toString'', ''toString''),
      (''valueOf'', ''valueOf''),
      (''__defineGetter__'', ''__defineGetter__''),
      (''__defineSetter__'', ''__defineSetter__''),
      (''__lookupGetter__'', ''__lookupGetter__''),
      (''__lookupSetter__'', ''__lookupSetter__'')]"

definition dictionary_text :: "string \<Rightarrow> string option" where
  "dictionary_text text =
     (case map_of simpleLanguageMap text of
        Some simple \<Rightarrow> if simple = [] then None else Some simple
      | None \<Rightarrow>
          (case map_of Object_prototype_methods text of
             Some name \<Rightarrow> Some (''function '' @ name @ ''() { [native code] }'')
           | None \<Rightarrow> if text = ''__proto__'' then Some ''[object Object]'' else None))"

text \<open>
  \<open>applySimpleLanguage\<close> visits every element. One without element children and with
  non-empty text whose trimmed text has a dictionary entry gets the trimmed text recorded in
  \<open>data-original-text\<close> and the entry as its text. Other elements are left as they are, and
  their descendants are visited in turn.
\<close>

fun applySimpleLanguage_node :: "node \<Rightarrow> node" where
  "applySimpleLanguage_node (TextNode s) = TextNode s"
| "applySimpleLanguage_node (Element tag attrs kids) =
     (if filter is_element kids = [] then
        (if concat (map textContent kids) \<noteq> [] then
           (case dictionary_text (trim (concat (map textContent kids))) of
              Some simple \<Rightarrow>
                Element tag
                  (setAttribute ''data-original-text'' (trim (concat (map textContent kids))) attrs)
                  (text_children simple)
            | None \<Rightarrow> Element tag attrs kids)
         else Element tag attrs kids)
      else Element tag attrs (map applySimpleLanguage_node kids))"

definition applySimpleLanguage_region :: "live_region \<Rightarrow> live_region" where
  "applySimpleLanguage_region lr =
     (if lr_text lr \<noteq> [] then
        (case dictionary_text (trim (lr_text lr)) of
           Some simple \<Rightarrow> lr\<lparr>lr_original := Some (trim (lr_text lr)), lr_text := simple\<rparr>
         | None \<Rightarrow> lr)
      else lr)"

definition applySimpleLanguage :: "page \<Rightarrow> page" where
  "applySimpleLanguage p =
     p\<lparr>content := map applySimpleLanguage_node (content p),
       liveRegion := map_option applySimpleLanguage_region (liveRegion p)\<rparr>"

text \<open>
  \<open>removeSimpleLanguage\<close> visits the elements that carry \<open>data-original-text\<close>, in document
  order: the attribute's value becomes the element's text (replacing whatever children it had,
  so that elements below it are no longer in the document) and the attribute is removed.
\<close>

fun removeSimpleLanguage_node :: "node \<Rightarrow> node" where
  "removeSimpleLanguage_node (TextNode s) = TextNode s"
| "removeSimpleLanguage_node (Element tag attrs kids) =
     (case getAttribute ''data-original-text'' attrs of
        Some original \<Rightarrow>
          Element tag (removeAttribute ''data-original-text'' attrs) (text_children original)
      | None \<Rightarrow> Element tag attrs (map removeSimpleLanguage_node kids))"

definition removeSimpleLanguage_region :: "live_region \<Rightarrow> live_region" where
  "removeSimpleLanguage_region lr =
     (case lr_original lr of
        Some original \<Rightarrow> lr\<lparr>lr_text := original, lr_original := None\<rparr>
      | None \<Rightarrow> lr)"

definition removeSimpleLanguage :: "page \<Rightarrow> page" where
  "removeSimpleLanguage p =
     p\<lparr>content := map removeSimpleLanguage_node (content p),
       liveRegion := map_option removeSimpleLanguage_region (liveRegion p)\<rparr>"

section \<open>Single-feature applicators\<close>

definition toggle_body_class :: "string \<Rightarrow> jsvalue \<Rightarrow> page \<Rightarrow> page" where
  "toggle_body_class tok enabled p =
     p\<lparr>body_class :=
          (if js_truthy enabled then add_token tok (body_class p)
           else remove_token tok (body_class p))\<rparr>"

definition toggleHighContrast :: "env \<Rightarrow> jsvalue \<Rightarrow> page \<Rightarrow> page" where
  "toggleHighContrast e enabled p =
     (let p1 = set_state ''highContrast'' enabled p;
          p2 = toggle_body_class ''high-contrast'' enabled p1;
          p3 = saveA11ySettings e p2;
          p4 = announce (if js_truthy enabled then ''High contrast mode enabled''
                         else ''High contrast mode disabled'') p3
      in if js_truthy enabled then playInfoSound p4 else p4)"

definition set_widget_text :: "string \<Rightarrow> string \<Rightarrow> page \<Rightarrow> page" where
  "set_widget_text ident val p =
     (case controls p ident of
        None \<Rightarrow> p
      | Some w \<Rightarrow> p\<lparr>controls := (controls p)(ident \<mapsto> w\<lparr>w_text := val\<rparr>)\<rparr>)"

text \<open>
  \<open>setTextSize\<close>. \<open>body_fontSize\<close> holds the string assigned to \<open>body.style.fontSize\<close> (a
  browser keeps the previous value when the string is not a font size). \<open>size + '%'\<close> converts
  the size to a string, which throws for a value without a string form, after the record was
  written.
\<close>

definition setTextSize :: "env \<Rightarrow> jsvalue \<Rightarrow> page \<Rightarrow> outcome" where
  "setTextSize e sz p =
     (let p1 = set_state ''textSize'' sz p
      in case ToString sz of
           Inl err \<Rightarrow> Thrown err p1
         | Inr s \<Rightarrow>
             (let p2 = p1\<lparr>body_fontSize := s @ ''%''\<rparr>;
                  p3 = set_widget_text ''textSizeValue'' (s @ ''%'') p2
              in Completed (saveA11ySettings e p3)))"

text \<open>
  \<open>setColorScheme\<close> strips the markers from the class string, then adds the new marker unless
  the scheme is \<open>default\<close>. The template literal throws for a scheme without a string form and
  \<open>classList.add\<close> throws on a marker with white space in it, before the settings are saved.
\<close>

definition add_marker :: "string \<Rightarrow> jsvalue \<Rightarrow> string \<Rightarrow> js_error + string" where
  "add_marker pre v cls =
     (case ToString v of
        Inl err \<Rightarrow> Inl err
      | Inr s \<Rightarrow> classList_add (pre @ s) cls)"

definition setColorScheme :: "env \<Rightarrow> jsvalue \<Rightarrow> page \<Rightarrow> outcome" where
  "setColorScheme e scheme p =
     (let p1 = set_state ''colorScheme'' scheme p;
          p2 = p1\<lparr>body_class := strip_marker ''color-'' (body_class p1)\<rparr>;
          added =
            (if scheme \<noteq> Str ''default''
             then add_marker ''color-'' scheme (body_class p2)
             else Inr (body_class p2))
      in case added of
           Inl err \<Rightarrow> Thrown err p2
         | Inr cls \<Rightarrow>
             Completed
               (announce (''Color scheme changed to '' @ js_toString scheme)
                  (saveA11ySettings e (p2\<lparr>body_class := cls\<rparr>))))"

definition toggleEnhancedFocus :: "env \<Rightarrow> jsvalue \<Rightarrow> page \<Rightarrow> page" where
  "toggleEnhancedFocus e enabled p =
     saveA11ySettings e
       (toggle_body_class ''enhanced-focus'' enabled (set_state ''enhancedFocus'' enabled p))"

definition toggleReduceMotion :: "env \<Rightarrow> jsvalue \<Rightarrow> page \<Rightarrow> page" where
  "toggleReduceMotion e enabled p =
     saveA11ySettings e
       (toggle_body_class ''reduce-motion'' enabled (set_state ''reduceMotion'' enabled p))"

definition toggleSimpleLanguage :: "env \<Rightarrow> jsvalue \<Rightarrow> page \<Rightarrow> page" where
  "toggleSimpleLanguage e enabled p =
     (let p1 = set_state ''simpleLanguage'' enabled p;
          p2 = (if js_truthy enabled then applySimpleLanguage p1 else removeSimpleLanguage p1);
          p3 = saveA11ySettings e p2
      in announce (if js_truthy enabled then ''Simplified language enabled''
                   else ''Simplified language disabled'') p3)"

section \<open>Reading guide and tab order indicator\<close>

text \<open>
  \<open>addEventListener\<close> ignores a listener that is registered already (same type, same function);
  \<open>removeEventListener\<close> removes it.
\<close>

definition add_listener :: "string \<times> string \<Rightarrow> (string \<times> string) list \<Rightarrow> (string \<times> string) list" where
  "add_listener l ls = (if l \<in> set ls then ls else ls @ [l])"

definition addEventListener :: "string \<Rightarrow> string \<Rightarrow> page \<Rightarrow> page" where
  "addEventListener type handler p = p\<lparr>listeners := add_listener (type, handler) (listeners p)\<rparr>"

definition removeEventListener :: "string \<Rightarrow> string \<Rightarrow> page \<Rightarrow> page" where
  "removeEventListener type handler p = p\<lparr>listeners := removeAll (type, handler) (listeners p)\<rparr>"

definition new_overlay :: "string \<Rightarrow> overlay" where
  "new_overlay cls = \<lparr>ov_class = cls, ov_top = None, ov_left = None, ov_width = None, ov_height = None\<rparr>"

text \<open>
  \<open>updateReadingGuide(e)\<close>: \<open>y\<close> is the pointer's \<open>clientY\<close> when an event is given and half the
  window height otherwise.
\<close>

definition updateReadingGuide :: "env \<Rightarrow> rat option \<Rightarrow> page \<Rightarrow> page" where
  "updateReadingGuide e clientY p =
     (if readingGuideEl p = None \<or> \<not> js_truthy (js_get (a11yState p) ''readingGuide'') then p
      else
        (let y = (case clientY of Some cy \<Rightarrow> cy | None \<Rightarrow> innerHeight e / 2)
         in p\<lparr>readingGuideEl :=
                map_option
                  (\<lambda>el. el\<lparr>ov_top := Some (Px (y - 15)), ov_left := Some (Literal ''0''),
                           ov_width := Some (Literal ''100%''), ov_height := Some (Literal ''30px'')\<rparr>)
                  (readingGuideEl p)\<rparr>))"

definition toggleReadingGuide :: "env \<Rightarrow> jsvalue \<Rightarrow> page \<Rightarrow> page" where
  "toggleReadingGuide e enabled p =
     (let p1 = set_state ''readingGuide'' enabled p;
          p2 =
            (if js_truthy enabled then
               (let q1 = (if readingGuideEl p1 = None
                          then p1\<lparr>readingGuideEl := Some (new_overlay ''reading-guide''),
                                 body_appended := body_appended p1 @ [''reading-guide'']\<rparr>
                          else p1);
                    q2 = q1\<lparr>readingGuideEl :=
                              map_option (\<lambda>el. el\<lparr>ov_class := add_token ''active'' (ov_class el)\<rparr>)
                                (readingGuideEl q1)\<rparr>;
                    q3 = updateReadingGuide e None q2
                in addEventListener ''keydown'' ''updateReadingGuideOnKey''
                     (addEventListener ''mousemove'' ''updateReadingGuide'' q3))
             else
               (let q1 = p1\<lparr>readingGuideEl :=
                              map_option (\<lambda>el. el\<lparr>ov_class := remove_token ''active'' (ov_class el)\<rparr>)
                                (readingGuideEl p1)\<rparr>
                in removeEventListener ''keydown'' ''updateReadingGuideOnKey''
                     (removeEventListener ''mousemove'' ''updateReadingGuide'' q1)))
      in saveA11ySettings e p2)"

definition updateTabIndicator :: "env \<Rightarrow> page \<Rightarrow> page" where
  "updateTabIndicator e p =
     (if tabIndicatorEl p = None \<or> \<not> js_truthy (js_get (a11yState p) ''tabOrder'') then p
      else
        (case activeElement e of
           None \<Rightarrow> p
         | Some r \<Rightarrow>
             p\<lparr>tabIndicatorEl :=
                  map_option
                    (\<lambda>el. el\<lparr>ov_top := Some (Px (r_top r - 3)), ov_left := Some (Px (r_left r - 3)),
                             ov_width := Some (Px (r_width r + 6)),
                             ov_height := Some (Px (r_height r + 6)),
                             ov_class := add_token ''active'' (ov_class el)\<rparr>)
                    (tabIndicatorEl p)\<rparr>))"

definition toggleTabOrder :: "env \<Rightarrow> jsvalue \<Rightarrow> page \<Rightarrow> page" where
  "toggleTabOrder e enabled p =
     (let p1 = set_state ''tabOrder'' enabled p;
          p2 =
            (if js_truthy enabled then
               (let q1 = (if tabIndicatorEl p1 = None
                          then p1\<lparr>tabIndicatorEl := Some (new_overlay ''tab-indicator''),
                                 body_appended := body_appended p1 @ [''tab-indicator'']\<rparr>
                          else p1);
                    q2 = updateTabIndicator e q1
                in addEventListener ''focusin'' ''updateTabIndicator''
                     (addEventListener ''keydown'' ''handleTabOrderKey'' q2))
             else
               (let q1 = p1\<lparr>tabIndicatorEl :=
                              map_option (\<lambda>el. el\<lparr>ov_class := remove_token ''active'' (ov_class el)\<rparr>)
                                (tabIndicatorEl p1)\<rparr>
                in removeEventListener ''focusin'' ''updateTabIndicator''
                     (removeEventListener ''keydown'' ''handleTabOrderKey'' q1)))
      in saveA11ySettings e p2)"

section \<open>Screen reader optimizations\<close>

text \<open>
  For NVDA and JAWS every \<open>button\<close> without an \<open>aria-label\<close> and without text gets one; for
  VoiceOver every element with a \<open>role\<close> and neither \<open>aria-label\<close> nor \<open>aria-labelledby\<close> gets
  the first fifty characters of its text, when there are any.
\<close>

fun label_buttons :: "node \<Rightarrow> node" where
  "label_buttons (TextNode s) = TextNode s"
| "label_buttons (Element tag attrs kids) =
     Element tag
       (if tag = ''button'' \<and> \<not> attr_truthy ''aria-label'' attrs
           \<and> trim (concat (map textContent kids)) = []
        then setAttribute ''aria-label''
               (if concat (map textContent kids) \<noteq> [] then concat (map textContent kids)
                else ''Button'') attrs
        else attrs)
       (map label_buttons kids)"

fun label_roles :: "node \<Rightarrow> node" where
  "label_roles (TextNode s) = TextNode s"
| "label_roles (Element tag attrs kids) =
     Element tag
       (if getAttribute ''role'' attrs \<noteq> None \<and> \<not> attr_truthy ''aria-label'' attrs
           \<and> \<not> attr_truthy ''aria-labelledby'' attrs
           \<and> take 50 (concat (map textContent kids)) \<noteq> []
        then setAttribute ''aria-label'' (take 50 (concat (map textContent kids))) attrs
        else attrs)
       (map label_roles kids)"

definition applyScreenReaderOptimizations :: "env \<Rightarrow> page \<Rightarrow> outcome" where
  "applyScreenReaderOptimizations e p =
     (let srMode = detectScreenReader e (a11yState p);
          p1 = p\<lparr>body_class := strip_marker ''sr-optimize-'' (body_class p)\<rparr>
      in case add_marker ''sr-optimize-'' srMode (body_class p1) of
           Inl err \<Rightarrow> Thrown err p1
         | Inr cls \<Rightarrow>
             (let p2 = p1\<lparr>body_class := cls\<rparr>;
                  p3 = (if srMode = Str ''nvda'' \<or> srMode = Str ''jaws''
                        then p2\<lparr>content := map label_buttons (content p2)\<rparr> else p2);
                  p4 = (if srMode = Str ''voiceover''
                        then p3\<lparr>content := map label_roles (content p3)\<rparr> else p3)
              in Completed p4))"

section \<open>Reconciliation, load and reset\<close>

definition set_checked :: "string \<Rightarrow> bool \<Rightarrow> page \<Rightarrow> page" where
  "set_checked ident b p =
     (case controls p ident of
        None \<Rightarrow> p
      | Some w \<Rightarrow> p\<lparr>controls := (controls p)(ident \<mapsto> w\<lparr>w_checked := b\<rparr>)\<rparr>)"

text \<open>
  Assigning \<open>select.value\<close> converts the value to a string (which can throw) and selects the
  option with that value; with no such option the select is left without a selection and its
  value reads as the empty string. The options are those of the panel the script injects.
\<close>

definition screenReaderMode_options :: "string list" where
  "screenReaderMode_options =
     [''auto'', ''nvda'', ''jaws'', ''voiceover'', ''talkback'', ''orca'', ''narrator'']"

definition set_select_value :: "string \<Rightarrow> string \<Rightarrow> page \<Rightarrow> page" where
  "set_select_value ident val p =
     (case controls p ident of
        None \<Rightarrow> p
      | Some w \<Rightarrow>
          p\<lparr>controls := (controls p)(ident \<mapsto>
               w\<lparr>w_value := (if val \<in> set screenReaderMode_options then val else [])\<rparr>)\<rparr>)"

definition sync_controls :: "page \<Rightarrow> outcome" where
  "sync_controls p =
     (let kb = (js_get (a11yState p) ''keyboardShortcuts'' \<noteq> Bool False);
          p1 = set_aria_checked ''keyboardShortcuts'' (bool_toString kb)
                 (set_checked ''keyboardShortcuts'' kb p);
          selected =
            (if controls p1 ''screenReaderMode'' = None then Inr p1
             else case ToString (js_get (a11yState p1) ''screenReaderMode'') of
                    Inl err \<Rightarrow> Inl err
                  | Inr s \<Rightarrow> Inr (set_select_value ''screenReaderMode'' s p1))
      in case selected of
           Inl err \<Rightarrow> Thrown err p1
         | Inr p2 \<Rightarrow>
             (let p3 = set_checked ''announceChanges''
                         (js_truthy (js_get (a11yState p2) ''announceChanges'')) p2
              in Completed
                   (set_checked ''ariaLive'' (js_truthy (js_get (a11yState p3) ''ariaLive'')) p3)))"

definition applyAllA11ySettings :: "env \<Rightarrow> page \<Rightarrow> outcome" where
  "applyAllA11ySettings e p =
     (let p1 = toggleHighContrast e (js_get (a11yState p) ''highContrast'') p
      in and_then (setTextSize e (js_get (a11yState p1) ''textSize'') p1)
           (\<lambda>p2.
              and_then (setColorScheme e (js_get (a11yState p2) ''colorScheme'') p2)
                (\<lambda>p3.
                   let p4 = toggleEnhancedFocus e (js_get (a11yState p3) ''enhancedFocus'') p3;
                       p5 = toggleReduceMotion e (js_get (a11yState p4) ''reduceMotion'') p4;
                       p6 = toggleSimpleLanguage e (js_get (a11yState p5) ''simpleLanguage'') p5;
                       p7 = toggleReadingGuide e (js_get (a11yState p6) ''readingGuide'') p6;
                       p8 = toggleTabOrder e (js_get (a11yState p7) ''tabOrder'') p7
                   in and_then (sync_controls p8) (applyScreenReaderOptimizations e))))"

text \<open>
  \<open>loadA11ySettings\<close>. A stored string that is \<open>null\<close> or empty is falsy. \<open>JSON.parse\<close>,
  \<open>Object.assign\<close>, the repair of \<open>keyboardShortcuts\<close> and \<open>applyAllA11ySettings\<close> run inside one
  \<open>try\<close>; its handler warns and sets \<open>keyboardShortcuts\<close>, on the state the throw left behind.
\<close>

definition loadA11ySettings :: "env \<Rightarrow> page \<Rightarrow> page" where
  "loadA11ySettings e p =
     (case safeStorage_getItem ''a11ySettings'' (store p) of
        None \<Rightarrow> set_state ''keyboardShortcuts'' (Bool True) p
      | Some saved \<Rightarrow>
          if saved = [] then set_state ''keyboardShortcuts'' (Bool True) p
          else
            (case JSON_parse e saved of
               None \<Rightarrow> set_state ''keyboardShortcuts'' (Bool True) p
             | Some savedSettings \<Rightarrow>
                 (let merged = Object_assign (a11yState p, a11yState_prototype p) savedSettings;
                      p1 = p\<lparr>a11yState := fst merged, a11yState_prototype := snd merged\<rparr>;
                      p2 = (if js_get (a11yState p1) ''keyboardShortcuts'' = Undefined
                               \<or> js_get (a11yState p1) ''keyboardShortcuts'' = Null
                            then set_state ''keyboardShortcuts'' (Bool True) p1 else p1)
                  in case applyAllA11ySettings e p2 of
                       Completed q \<Rightarrow> q
                     | Thrown err q \<Rightarrow> set_state ''keyboardShortcuts'' (Bool True) q)))"

text \<open>\<open>resetA11ySettings\<close> removes the snapshot and asks the browser to reload the page.\<close>

definition resetA11ySettings :: "page \<Rightarrow> page" where
  "resetA11ySettings p =
     p\<lparr>store := safeStorage_removeItem ''a11ySettings'' (store p), reload_requested := True\<rparr>"

section \<open>The persisted snapshot, as \<open>loadA11ySettings\<close> sees it\<close>

text \<open>
  The snapshot is present and parseable when the store returns a non-empty string for
  \<open>a11ySettings\<close> and \<open>JSON.parse\<close> accepts it. The value a snapshot holds under a key is that of
  its last own property of that name. \<open>JSON.parse\<close> never makes a property \<open>undefined\<close>.
\<close>

definition stored_snapshot :: "env \<Rightarrow> page \<Rightarrow> jsvalue option" where
  "stored_snapshot e p =
     (case safeStorage_getItem ''a11ySettings'' (store p) of
        None \<Rightarrow> None
      | Some saved \<Rightarrow> if saved = [] then None else JSON_parse e saved)"

definition snapshot_value :: "jsvalue \<Rightarrow> string \<Rightarrow> jsvalue option" where
  "snapshot_value v k = map_of (rev (own_properties v)) k"

definition parsed_properties :: "jsvalue \<Rightarrow> bool" where
  "parsed_properties v = list_all (\<lambda>kv. snd kv \<noteq> Undefined) (own_properties v)"

text \<open>
  The value under a key once the snapshot is laid over the record as the script initialises
  it: the snapshot's when it has the key, the default otherwise.
\<close>

definition merged_value :: "jsvalue \<Rightarrow> string \<Rightarrow> jsvalue" where
  "merged_value v k = (case snapshot_value v k of Some x \<Rightarrow> x | None \<Rightarrow> js_get a11yState_init k)"

text \<open>
  Where the reconciliation pass throws. Adding a class built from a value throws when the value
  has no string form or its string has white space in it. The pass converts the text size,
  builds a class from the colour scheme unless that is \<open>default\<close>, and one from the screen
  reader mode unless that is \<open>auto\<close> (the class then comes from the name of the detected
  reader).
\<close>

definition marker_throws :: "jsvalue \<Rightarrow> bool" where
  "marker_throws v = (list_ex ascii_whitespace (js_toString v) \<or> \<not> string_convertible v)"

definition reconcile_throws :: "(string \<Rightarrow> jsvalue) \<Rightarrow> bool" where
  "reconcile_throws m =
     ((m ''colorScheme'' \<noteq> Str ''default'' \<and> marker_throws (m ''colorScheme''))
      \<or> (m ''screenReaderMode'' \<noteq> Str ''auto'' \<and> marker_throws (m ''screenReaderMode''))
      \<or> \<not> string_convertible (m ''textSize''))"

text \<open>The keys the reconciliation pass writes back through the eight applicators.\<close>

definition applied_keys :: "string list" where
  "applied_keys =
     [''highContrast'', ''textSize'', ''colorScheme'', ''enhancedFocus'', ''reduceMotion'',
      ''simpleLanguage'', ''readingGuide'', ''tabOrder'']"

section \<open>Scheme markers and the observable page\<close>

text \<open>
  A marker is a class token that consists of the marker prefix and one or more word characters:
  what the stripping expression matches as a whole. The scheme markers of a class string are the
  tokens of that form with the prefix \<open>color-\<close>. The settings panel offers five schemes.
\<close>

definition marker_token :: "string \<Rightarrow> string \<Rightarrow> bool" where
  "marker_token pre t =
     (prefix pre t \<and> drop (length pre) t \<noteq> [] \<and> list_all word_char (drop (length pre) t))"

definition scheme_markers :: "string \<Rightarrow> string list" where
  "scheme_markers cls = filter (marker_token ''color-'') (token_set cls)"

definition color_schemes :: "jsvalue list" where
  "color_schemes =
     [Str ''default'', Str ''protanopia'', Str ''deuteranopia'', Str ''tritanopia'',
      Str ''monochrome'']"

text \<open>
  \<open>has_match\<close>: the stripping expression matches somewhere in a string. A pass of the
  replacement can bring a new match together (it turns \<open>colorcolor-a-b\<close> into \<open>color-b\<close>); a
  class string strips clean when after one pass no class token has anything in it that the
  expression matches.
\<close>

fun has_match :: "string \<Rightarrow> string \<Rightarrow> bool" where
  "has_match pre [] = False"
| "has_match pre (c # cs) = (match_marker pre (c # cs) \<noteq> None \<or> has_match pre cs)"

definition strips_clean :: "string \<Rightarrow> bool" where
  "strips_clean cls =
     list_all (\<lambda>t. \<not> has_match ''color-'' t) (class_tokens (strip_marker ''color-'' cls))"

text \<open>
  Tokens as \<open>classList\<close> holds them are not empty and have no white space in them. A class
  string is tidy when each of its tokens is a whole marker or has nothing in it that the
  expression matches.
\<close>

definition valid_token :: "string \<Rightarrow> bool" where
  "valid_token t = (t \<noteq> [] \<and> (\<forall>c \<in> set t. \<not> ascii_whitespace c))"

definition tidy_tokens :: "string \<Rightarrow> string \<Rightarrow> bool" where
  "tidy_tokens pre cls =
     (\<forall>t \<in> set (class_tokens cls). marker_token pre t \<or> \<not> has_match pre t)"







section \<open>Sample page and environment\<close>

text \<open>
  \<open>JSON.stringify\<close> for the values above: strings are quoted with the quote, the backslash and
  the control characters escaped, \<open>undefined\<close> is dropped from an object and printed as \<open>null\<close>
  in an array.
\<close>

definition hex_digit :: "nat \<Rightarrow> char" where
  "hex_digit n = (if n < 10 then char_of (48 + n) else char_of (87 + n))"

definition json_escape :: "char \<Rightarrow> string" where
  "json_escape c =
     (let n = (of_char c :: nat)
      in if n = 34 then [CHR 0x5C, CHR 0x22]
         else if n = 92 then [CHR 0x5C, CHR 0x5C]
         else if n = 8 then [CHR 0x5C, CHR ''b'']
         else if n = 9 then [CHR 0x5C, CHR ''t'']
         else if n = 10 then [CHR 0x5C, CHR ''n'']
         else if n = 12 then [CHR 0x5C, CHR ''f'']
         else if n = 13 then [CHR 0x5C, CHR ''r'']
         else if n < 32 then [CHR 0x5C, CHR ''u'', CHR ''0'', CHR ''0'', hex_digit (n div 16), hex_digit (n mod 16)]
         else [c])"

definition json_quote :: "string \<Rightarrow> string" where
  "json_quote s = CHR 0x22 # concat (map json_escape s) @ [CHR 0x22]"

fun json_text :: "jsvalue \<Rightarrow> string" where
  "json_text Undefined = []"
| "json_text Null = ''null''"
| "json_text (Bool b) = bool_toString b"
| "json_text (Num i) = int_toString i"
| "json_text (Str s) = json_quote s"
| "json_text (Arr vs) =
     ''['' @ join '','' (map (\<lambda>v. if v = Undefined then ''null'' else json_text v) vs) @ '']''"
| "json_text (Obj kvs) =
     ''{'' @ join '',''
              (map (\<lambda>kv. json_quote (fst kv) @ '':'' @ json_text (snd kv))
                 (filter (\<lambda>kv. snd kv \<noteq> Undefined) kvs)) @ ''}''"

text \<open>
  Snapshots a store can hold: one with a key the record does not declare, one with \<open>null\<close>
  under a declared key, one that switches two settings on, one that switches the keyboard
  shortcuts off and has a \<open>__proto__\<close> key, and one that switches them off and names a colour
  scheme with a space in it.
\<close>

definition sample_snapshots :: "jsvalue list" where
  "sample_snapshots =
     [Obj [(''theme'', Str ''dark'')],
      Obj [(''textSize'', Null)],
      Obj [(''highContrast'', Bool True), (''textSize'', Num 150)],
      Obj [(''keyboardShortcuts'', Bool False), (''__proto__'', Null)],
      Obj [(''keyboardShortcuts'', Bool False), (''colorScheme'', Str ''high contrast'')]]"

text \<open>
  An environment: Windows without speech synthesis, audio available. Its \<open>JSON.parse\<close> reads the
  texts of the sample snapshots and throws on anything else.
\<close>

definition sample_env :: env where
  "sample_env =
     \<lparr>JSON_parse = (\<lambda>s. find (\<lambda>v. json_text v = s) sample_snapshots),
      JSON_stringify = (\<lambda>obj. json_text (Obj obj)),
      userAgent = ''Mozilla/5.0 (Windows NT 10.0; Win64; x64) AppleWebKit/537.36'',
      speechVoices = None,
      AudioContextClass = Some (CtorYields Suspended),
      innerHeight = 768,
      activeElement = None\<rparr>"

text \<open>
  The script's variables as it initialises them, on a page with an empty body, no controls and
  working storage.
\<close>

definition page_init :: page where
  "page_init =
     \<lparr>a11yState = a11yState_init, a11yState_prototype = Object_prototype,
      store = \<lparr>localStorage = Available Map.empty, sessionStorage = Available Map.empty,
               memoryStorage = None\<rparr>,
      clock = 0, timers = [], audioEnabled = True, audioContext = None, tones = [],
      body_class = [], body_fontSize = [], body_appended = [], liveRegion = None,
      content = [], controls = Map.empty, readingGuideEl = None, tabIndicatorEl = None,
      listeners = [], reload_requested = False\<rparr>"

text \<open>The same page with a header audio toggle, audio muted.\<close>

definition muted_page :: page where
  "muted_page =
     page_init\<lparr>audioEnabled := False,
       controls := [''audioToggle'' \<mapsto>
         \<lparr>w_checked = False, w_aria_checked = Some ''false'', w_value = [], w_text = []\<rparr>]\<rparr>"

text \<open>The initial page after \<open>JSON.stringify\<close> of a snapshot was stored under \<open>a11ySettings\<close>.\<close>

definition stored_page :: "jsvalue \<Rightarrow> page" where
  "stored_page v =
     page_init\<lparr>store := safeStorage_setItem ''a11ySettings'' (json_text v) (store page_init)\<rparr>"

section \<open>Properties of the tiered store\<close>

lemma setItem_getItem:
  "localStorage st \<noteq> Throwing \<Longrightarrow> val \<noteq> [] \<Longrightarrow>
     safeStorage_getItem key (safeStorage_setItem key val st) = Some val"
  by (auto simp: safeStorage_setItem_def safeStorage_getItem_def memory_write_def memory_read_def
      split: web_storage.splits option.splits)

text \<open>
  C1. The claim is that \<open>set\<close> followed by \<open>get\<close> returns the value even when the durable tier
  throws on every access. In the code a throwing \<open>localStorage\<close> is caught by the outer handler of
  \<open>setItem\<close>, which stores nothing in any tier, and by the outer handler of \<open>getItem\<close>, which
  returns \<open>null\<close>: whatever the session and memory tiers hold, the value written is not read back.
\<close>

theorem throwing_durable_tier_loses_write:
  "safeStorage_getItem key (safeStorage_setItem key val (st\<lparr>localStorage := Throwing\<rparr>)) = None"
  by (simp add: safeStorage_setItem_def safeStorage_getItem_def)

text \<open>
  C10. Reset removes the entry \<open>a11ySettings\<close> and no other: afterwards the snapshot reads as
  \<open>null\<close> and every other key, \<open>audioAlertsEnabled\<close> among them, reads as before, so that
  \<open>loadAudioPreference\<close> finds the same audio choice; and the reload has been requested.
\<close>

theorem reset_keeps_audio_preference:
  "(\<forall>k. safeStorage_getItem k (store (resetA11ySettings p)) =
          (if k = ''a11ySettings'' then None else safeStorage_getItem k (store p)))
   \<and> safeStorage_getItem ''audioAlertsEnabled'' (store (resetA11ySettings p)) =
       safeStorage_getItem ''audioAlertsEnabled'' (store p)
   \<and> audioEnabled (loadAudioPreference (resetA11ySettings p)) = audioEnabled (loadAudioPreference p)
   \<and> reload_requested (resetA11ySettings p)"
  by (auto simp: resetA11ySettings_def safeStorage_removeItem_def safeStorage_getItem_def
      memory_delete_def memory_read_def loadAudioPreference_def set_aria_checked_def Let_def
      split: web_storage.splits option.splits)

section \<open>Properties of the announcer\<close>

lemma run_timer_region_kept:
  "liveRegion s \<noteq> None \<Longrightarrow> liveRegion (run_timer a (s\<lparr>clock := c\<rparr>)) \<noteq> None"
  by (cases a) (auto simp: run_timer_def playTone_def playInfoSound_def)

lemma run_timer_text_stays_empty:
  "live_text s = Some [] \<Longrightarrow> live_text (run_timer a (s\<lparr>clock := c\<rparr>)) = Some []"
  by (cases a) (auto simp: live_text_def run_timer_def playTone_def playInfoSound_def)

lemma run_timer_clears:
  "liveRegion s \<noteq> None \<Longrightarrow> live_text (run_timer ClearLiveRegion (s\<lparr>clock := c\<rparr>)) = Some []"
  by (auto simp: live_text_def run_timer_def)

lemma fold_timers_text_stays_empty:
  "live_text s = Some [] \<Longrightarrow>
   live_text (fold (\<lambda>(t, a) s. run_timer a (s\<lparr>clock := max (clock s) t\<rparr>)) xs s) = Some []"
  by (induction xs arbitrary: s) (simp_all add: run_timer_text_stays_empty split_beta)

text \<open>Once a due clearing callback has run, no later callback of the batch writes text.\<close>

lemma fold_timers_clears:
  "(t, ClearLiveRegion) \<in> set xs \<Longrightarrow> liveRegion s \<noteq> None \<Longrightarrow>
   live_text (fold (\<lambda>(t, a) s. run_timer a (s\<lparr>clock := max (clock s) t\<rparr>)) xs s) = Some []"
proof (induction xs arbitrary: s)
  case Nil
  then show ?case by simp
next
  case (Cons x xs)
  obtain u a where x: "x = (u, a)" by (cases x)
  show ?case
  proof (cases "x = (t, ClearLiveRegion)")
    case True
    then show ?thesis
      using Cons.prems(2) by (simp add: fold_timers_text_stays_empty run_timer_clears)
  next
    case False
    with Cons.prems(1) have "(t, ClearLiveRegion) \<in> set xs" by simp
    moreover have "liveRegion (run_timer a (s\<lparr>clock := max (clock s) u\<rparr>)) \<noteq> None"
      using Cons.prems(2) by (rule run_timer_region_kept)
    ultimately show ?thesis using Cons.IH x by simp
  qed
qed

lemma advance_clears:
  assumes "(t, ClearLiveRegion) \<in> set (timers s)" and "t \<le> clock s + d" and "liveRegion s \<noteq> None"
  shows "live_text (advance d s) = Some []"
proof -
  have "(t, ClearLiveRegion) \<in> set (sort_key fst (filter (\<lambda>(u, a). u \<le> clock s + d) (timers s)))"
    using assms(1,2) by simp
  then have "live_text (fold (\<lambda>(t, a) s. run_timer a (s\<lparr>clock := max (clock s) t\<rparr>))
       (sort_key fst (filter (\<lambda>(u, a). u \<le> clock s + d) (timers s)))
       (s\<lparr>timers := filter (\<lambda>(u, a). \<not> u \<le> clock s + d) (timers s)\<rparr>)) = Some []"
    using assms(3) by (intro fold_timers_clears) simp_all
  then show ?thesis
    by (simp add: advance_def Let_def live_text_def)
qed

lemma announce_region:
  "liveRegion (announceToScreenReader m pr p) =
     Some ((case liveRegion p of
              Some lr \<Rightarrow> lr
            | None \<Rightarrow> \<lparr>aria_live = ''assertive'', lr_text = [], lr_original = None\<rparr>)
           \<lparr>aria_live := pr, lr_text := m\<rparr>)"
  by (simp add: announceToScreenReader_def ensureLiveRegion_def setTimeout_def Let_def
      split: option.splits)

lemma announce_timers:
  "timers (announceToScreenReader m pr p) = timers p @ [(clock p + 1000, ClearLiveRegion)]"
  by (simp add: announceToScreenReader_def ensureLiveRegion_def setTimeout_def Let_def
      split: option.splits)

lemma announce_clock:
  "clock (announceToScreenReader m pr p) = clock p"
  by (simp add: announceToScreenReader_def ensureLiveRegion_def setTimeout_def Let_def
      split: option.splits)

text \<open>
  C7. \<open>announce\<close> sets the region's priority and text, and a second or more later the text is
  empty. When \<open>announce(Y)\<close> follows \<open>announce(X)\<close> after \<open>d\<close> milliseconds (any \<open>d\<close>, so also
  within the second), the region's text is \<open>Y\<close> after the second call, and it is empty once a
  second or more has passed since the second call.
\<close>

theorem announce_then_clear:
  assumes "1000 \<le> d'"
  shows "live_priority (announceToScreenReader X pr p) = Some pr
       \<and> live_text (announceToScreenReader X pr p) = Some X
       \<and> (clock p + 1000, ClearLiveRegion) \<in> set (timers (announceToScreenReader X pr p))
       \<and> live_text (advance d' (announceToScreenReader X pr p)) = Some []
       \<and> live_text (announceToScreenReader Y pr' (advance d (announceToScreenReader X pr p))) = Some Y
       \<and> live_text (advance d' (announceToScreenReader Y pr' (advance d (announceToScreenReader X pr p))))
         = Some []"
proof -
  have clears: "live_text (advance d' (announceToScreenReader m q s)) = Some []" for m q s
    by (rule advance_clears [where t = "clock s + 1000"])
       (use assms in \<open>simp_all add: announce_timers announce_region announce_clock\<close>)
  show ?thesis
    by (simp add: clears announce_timers) (simp add: announce_region live_text_def live_priority_def)
qed

theorem announce_then_clear_witness:
  "(1000::nat) \<le> 1000
   \<and> live_text (announceToScreenReader ''Y'' ''polite''
                  (advance 400 (announceToScreenReader ''X'' ''polite'' page_init))) = Some ''Y''
   \<and> live_text (advance 1000 (announceToScreenReader ''Y'' ''polite''
                  (advance 400 (announceToScreenReader ''X'' ''polite'' page_init)))) = Some []"
proof -
  have h: "(1000::nat) \<le> 1000" by simp
  from announce_then_clear [OF h, of "''X''" "''polite''" page_init "''Y''" "''polite''" 400]
  show ?thesis by simp
qed

section \<open>Properties of the audio alerts\<close>

lemma run_timer_audio_kept:
  "audioEnabled (run_timer a (s\<lparr>clock := c\<rparr>)) = audioEnabled s \<and>
   audioContext (run_timer a (s\<lparr>clock := c\<rparr>)) = audioContext s"
  by (cases a) (auto simp: run_timer_def playTone_def playInfoSound_def)

lemma run_timer_tones_kept:
  "x \<in> set (tones s) \<Longrightarrow> x \<in> set (tones (run_timer a (s\<lparr>clock := c\<rparr>)))"
  by (cases a) (auto simp: run_timer_def playTone_def playInfoSound_def)

lemma fold_timers_tones_kept:
  "x \<in> set (tones s) \<Longrightarrow>
   x \<in> set (tones (fold (\<lambda>(t, a) s. run_timer a (s\<lparr>clock := max (clock s) t\<rparr>)) xs s))"
  by (induction xs arbitrary: s) (simp_all add: run_timer_tones_kept split_beta)

lemma fold_timers_info_tone:
  "(t, PlayInfoSound) \<in> set xs \<Longrightarrow> audioEnabled s \<Longrightarrow> audioContext s \<noteq> None \<Longrightarrow>
   \<lparr>frequency = 600, duration = 0.15, waveform = ''sine'', volume = 0.2\<rparr>
     \<in> set (tones (fold (\<lambda>(t, a) s. run_timer a (s\<lparr>clock := max (clock s) t\<rparr>)) xs s))"
proof (induction xs arbitrary: s)
  case Nil
  then show ?case by simp
next
  case (Cons x xs)
  obtain u a where x: "x = (u, a)" by (cases x)
  show ?case
  proof (cases "x = (t, PlayInfoSound)")
    case True
    have "\<lparr>frequency = 600, duration = 0.15, waveform = ''sine'', volume = 0.2\<rparr>
            \<in> set (tones (run_timer PlayInfoSound (s\<lparr>clock := max (clock s) t\<rparr>)))"
      using Cons.prems(2,3) by (auto simp: run_timer_def playInfoSound_def playTone_def)
    then show ?thesis using True by (simp add: fold_timers_tones_kept)
  next
    case False
    with Cons.prems(1) have "(t, PlayInfoSound) \<in> set xs" by simp
    then show ?thesis
      using Cons.IH [of "run_timer a (s\<lparr>clock := max (clock s) u\<rparr>)"] Cons.prems(2,3) x
      by (simp add: run_timer_audio_kept)
  qed
qed

lemma advance_info_tone:
  assumes "(t, PlayInfoSound) \<in> set (timers s)" and "t \<le> clock s + d"
    and "audioEnabled s" and "audioContext s \<noteq> None"
  shows "\<lparr>frequency = 600, duration = 0.15, waveform = ''sine'', volume = 0.2\<rparr>
           \<in> set (tones (advance d s))"
proof -
  have "(t, PlayInfoSound) \<in> set (sort_key fst (filter (\<lambda>(u, a). u \<le> clock s + d) (timers s)))"
    using assms(1,2) by simp
  then have "\<lparr>frequency = 600, duration = 0.15, waveform = ''sine'', volume = 0.2\<rparr>
     \<in> set (tones (fold (\<lambda>(t, a) s. run_timer a (s\<lparr>clock := max (clock s) t\<rparr>))
       (sort_key fst (filter (\<lambda>(u, a). u \<le> clock s + d) (timers s)))
       (s\<lparr>timers := filter (\<lambda>(u, a). \<not> u \<le> clock s + d) (timers s)\<rparr>)))"
    using assms(3,4) by (intro fold_timers_info_tone) simp_all
  then show ?thesis
    by (simp add: advance_def Let_def)
qed

lemmas toggle_defs = toggleAudioAlerts_def set_aria_checked_def announce_def
  announceToScreenReader_def ensureLiveRegion_def setTimeout_def initAudioContext_def Let_def

lemma muted_alerts_return:
  "\<not> audioEnabled p \<Longrightarrow> playSuccessSound p = p \<and> playErrorSound p = p \<and> playInfoSound p = p"
  by (simp add: playSuccessSound_def playErrorSound_def playInfoSound_def)

lemma toggle_audioEnabled:
  "audioEnabled (toggleAudioAlerts e p) =
     (\<not> audioEnabled p \<and>
      (controls p ''audioToggle'' = None \<or> audioContext p \<noteq> None
         \<or> AudioContextClass e \<noteq> Some CtorThrows))"
  by (auto simp: toggle_defs split: option.splits audio_ctor.splits)

lemma toggle_audioContext:
  "audioContext (toggleAudioAlerts e p) =
     (if \<not> audioEnabled p \<and> controls p ''audioToggle'' \<noteq> None \<and> audioContext p = None
      then (case AudioContextClass e of Some (CtorYields s) \<Rightarrow> Some s | _ \<Rightarrow> None)
      else audioContext p)"
  by (auto simp: toggle_defs split: option.splits audio_ctor.splits)

lemma toggle_has_control:
  "(controls (toggleAudioAlerts e p) ''audioToggle'' = None) = (controls p ''audioToggle'' = None)"
  by (auto simp: toggle_defs split: option.splits audio_ctor.splits)

lemma toggle_while_muted:
  assumes "\<not> audioEnabled p" and "controls p ''audioToggle'' \<noteq> None"
  shows "(clock p + 100, PlayInfoSound) \<in> set (timers (toggleAudioAlerts e p))"
    and "clock (toggleAudioAlerts e p) = clock p"
    and "live_text (toggleAudioAlerts e p) = Some ''Audio alerts enabled.''"
  using assms
  by (auto simp: toggle_defs live_text_def split: option.splits audio_ctor.splits)

lemma toggle_twice:
  assumes "controls p ''audioToggle'' = None \<or> audioContext p \<noteq> None
             \<or> AudioContextClass e \<noteq> Some CtorThrows"
  shows "audioEnabled (toggleAudioAlerts e (toggleAudioAlerts e p)) = audioEnabled p"
  using assms
  by (auto simp: toggle_audioEnabled toggle_audioContext toggle_has_control
      split: option.splits audio_ctor.splits)

lemma toggle_store:
  "store (toggleAudioAlerts e p) =
     safeStorage_setItem ''audioAlertsEnabled''
       (bool_toString (audioEnabled (toggleAudioAlerts e p))) (store p)"
  by (auto simp: toggle_defs split: option.splits audio_ctor.splits)

lemma setItem_local_kind:
  "(localStorage (safeStorage_setItem k v st) = Throwing) = (localStorage st = Throwing)"
  by (auto simp: safeStorage_setItem_def memory_write_def split: web_storage.splits option.splits)

lemma toggle_stored:
  "localStorage (store p) \<noteq> Throwing \<Longrightarrow>
     safeStorage_getItem ''audioAlertsEnabled'' (store (toggleAudioAlerts e p)) =
       Some (bool_toString (audioEnabled (toggleAudioAlerts e p)))"
  by (simp add: toggle_store setItem_getItem bool_toString_def)

lemma toggle_constructor_throws:
  assumes "\<not> audioEnabled p" and "controls p ''audioToggle'' \<noteq> None"
    and "audioContext p = None" and "AudioContextClass e = Some CtorThrows"
  shows "\<not> audioEnabled (toggleAudioAlerts e p)" and "audioContext (toggleAudioAlerts e p) = None"
  using assms by (simp_all add: toggle_audioEnabled toggle_audioContext)

lemma toggle_without_control:
  assumes "controls p ''audioToggle'' = None"
  shows "toggleAudioAlerts e p =
           p\<lparr>audioEnabled := \<not> audioEnabled p,
             store := safeStorage_setItem ''audioAlertsEnabled''
                        (bool_toString (\<not> audioEnabled p)) (store p)\<rparr>"
  using assms by (simp add: toggleAudioAlerts_def Let_def)

lemma toggle_twice_throwing:
  assumes "controls p ''audioToggle'' \<noteq> None" and "audioContext p = None"
    and "AudioContextClass e = Some CtorThrows"
  shows "\<not> audioEnabled (toggleAudioAlerts e (toggleAudioAlerts e p))"
  using assms
  by (simp add: toggle_audioEnabled toggle_audioContext toggle_has_control)

lemma toggle_not_stored:
  "localStorage (store p) = Throwing \<Longrightarrow>
     safeStorage_getItem ''audioAlertsEnabled'' (store (toggleAudioAlerts e p)) = None"
  by (simp add: toggle_store safeStorage_setItem_def safeStorage_getItem_def)

text \<open>
  C8, as the code has it. With \<open>audioEnabled\<close> false each named alert returns the state
  untouched: no tone, no timer. \<open>toggleAudioAlerts\<close> while muted, on a page that has the
  \<open>#audioToggle\<close> control: unless constructing a context is needed and throws, the flag is on
  afterwards, a context has been constructed if there was none and the browser offers one, the
  info tone is scheduled 100 ms ahead (and sounds then if there is a context), and
  \<open>Audio alerts enabled.\<close> is announced; when the construction throws, the flag is off
  afterwards and there is no context, the tone is scheduled and the announcement made all the
  same. On a page without the control the call flips the flag, writes the preference and changes
  nothing else. Two calls in a row restore the flag, except that they end with the flag off
  when it was on and the enabling call has to construct a context and that throws. After each
  call the preference read back from the store is the flag's string, provided \<open>localStorage\<close>
  does not throw.
\<close>

theorem audio_toggle_behaviour:
  "(\<not> audioEnabled p \<longrightarrow>
      playSuccessSound p = p \<and> playErrorSound p = p \<and> playInfoSound p = p)
   \<and> (\<not> audioEnabled p \<and> controls p ''audioToggle'' \<noteq> None
        \<and> (audioContext p \<noteq> None \<or> AudioContextClass e \<noteq> Some CtorThrows) \<longrightarrow>
        audioEnabled (toggleAudioAlerts e p)
        \<and> audioContext (toggleAudioAlerts e p) =
            (if audioContext p \<noteq> None then audioContext p
             else case AudioContextClass e of Some (CtorYields s) \<Rightarrow> Some s | _ \<Rightarrow> None)
        \<and> (clock p + 100, PlayInfoSound) \<in> set (timers (toggleAudioAlerts e p))
        \<and> (audioContext (toggleAudioAlerts e p) \<noteq> None \<longrightarrow>
             \<lparr>frequency = 600, duration = 0.15, waveform = ''sine'', volume = 0.2\<rparr>
               \<in> set (tones (advance 100 (toggleAudioAlerts e p))))
        \<and> live_text (toggleAudioAlerts e p) = Some ''Audio alerts enabled.'')
   \<and> (\<not> audioEnabled p \<and> controls p ''audioToggle'' \<noteq> None
        \<and> audioContext p = None \<and> AudioContextClass e = Some CtorThrows \<longrightarrow>
        \<not> audioEnabled (toggleAudioAlerts e p)
        \<and> audioContext (toggleAudioAlerts e p) = None
        \<and> (clock p + 100, PlayInfoSound) \<in> set (timers (toggleAudioAlerts e p))
        \<and> live_text (toggleAudioAlerts e p) = Some ''Audio alerts enabled.'')
   \<and> (controls p ''audioToggle'' = None \<longrightarrow>
        toggleAudioAlerts e p =
          p\<lparr>audioEnabled := \<not> audioEnabled p,
            store := safeStorage_setItem ''audioAlertsEnabled''
                       (bool_toString (\<not> audioEnabled p)) (store p)\<rparr>)
   \<and> (controls p ''audioToggle'' = None \<or> audioContext p \<noteq> None
        \<or> AudioContextClass e \<noteq> Some CtorThrows \<longrightarrow>
        audioEnabled (toggleAudioAlerts e (toggleAudioAlerts e p)) = audioEnabled p)
   \<and> (controls p ''audioToggle'' \<noteq> None \<and> audioContext p = None
        \<and> AudioContextClass e = Some CtorThrows \<longrightarrow>
        \<not> audioEnabled (toggleAudioAlerts e (toggleAudioAlerts e p)))
   \<and> (localStorage (store p) \<noteq> Throwing \<longrightarrow>
        safeStorage_getItem ''audioAlertsEnabled'' (store (toggleAudioAlerts e p)) =
          Some (bool_toString (audioEnabled (toggleAudioAlerts e p)))
        \<and> safeStorage_getItem ''audioAlertsEnabled''
            (store (toggleAudioAlerts e (toggleAudioAlerts e p))) =
          Some (bool_toString (audioEnabled (toggleAudioAlerts e (toggleAudioAlerts e p)))))"
proof (intro conjI impI)
  assume "\<not> audioEnabled p"
  then show "playSuccessSound p = p" "playErrorSound p = p" "playInfoSound p = p"
    by (simp_all add: muted_alerts_return)
next
  assume a: "\<not> audioEnabled p \<and> controls p ''audioToggle'' \<noteq> None
        \<and> (audioContext p \<noteq> None \<or> AudioContextClass e \<noteq> Some CtorThrows)"
  then show on: "audioEnabled (toggleAudioAlerts e p)"
    by (auto simp: toggle_audioEnabled)
  from a show "audioContext (toggleAudioAlerts e p) =
            (if audioContext p \<noteq> None then audioContext p
             else case AudioContextClass e of Some (CtorYields s) \<Rightarrow> Some s | _ \<Rightarrow> None)"
    by (auto simp: toggle_audioContext)
  from a show t: "(clock p + 100, PlayInfoSound) \<in> set (timers (toggleAudioAlerts e p))"
    by (simp add: toggle_while_muted)
  from a show "live_text (toggleAudioAlerts e p) = Some ''Audio alerts enabled.''"
    by (simp add: toggle_while_muted)
  assume "audioContext (toggleAudioAlerts e p) \<noteq> None"
  with on t a show "\<lparr>frequency = 600, duration = 0.15, waveform = ''sine'', volume = 0.2\<rparr>
               \<in> set (tones (advance 100 (toggleAudioAlerts e p)))"
    by (intro advance_info_tone [where t = "clock p + 100"]) (simp_all add: toggle_while_muted)
next
  assume a: "\<not> audioEnabled p \<and> controls p ''audioToggle'' \<noteq> None
        \<and> audioContext p = None \<and> AudioContextClass e = Some CtorThrows"
  then show "\<not> audioEnabled (toggleAudioAlerts e p)"
    by (simp add: toggle_constructor_throws)
  from a show "audioContext (toggleAudioAlerts e p) = None"
    by (simp add: toggle_constructor_throws)
  from a show "(clock p + 100, PlayInfoSound) \<in> set (timers (toggleAudioAlerts e p))"
    by (simp add: toggle_while_muted)
  from a show "live_text (toggleAudioAlerts e p) = Some ''Audio alerts enabled.''"
    by (simp add: toggle_while_muted)
next
  assume "controls p ''audioToggle'' = None"
  then show "toggleAudioAlerts e p =
          p\<lparr>audioEnabled := \<not> audioEnabled p,
            store := safeStorage_setItem ''audioAlertsEnabled''
                       (bool_toString (\<not> audioEnabled p)) (store p)\<rparr>"
    by (rule toggle_without_control)
next
  assume "controls p ''audioToggle'' = None \<or> audioContext p \<noteq> None
        \<or> AudioContextClass e \<noteq> Some CtorThrows"
  then show "audioEnabled (toggleAudioAlerts e (toggleAudioAlerts e p)) = audioEnabled p"
    by (rule toggle_twice)
next
  assume "controls p ''audioToggle'' \<noteq> None \<and> audioContext p = None
        \<and> AudioContextClass e = Some CtorThrows"
  then show "\<not> audioEnabled (toggleAudioAlerts e (toggleAudioAlerts e p))"
    by (simp add: toggle_twice_throwing)
next
  assume l: "localStorage (store p) \<noteq> Throwing"
  then show "safeStorage_getItem ''audioAlertsEnabled'' (store (toggleAudioAlerts e p)) =
          Some (bool_toString (audioEnabled (toggleAudioAlerts e p)))"
    by (rule toggle_stored)
  from l have "localStorage (store (toggleAudioAlerts e p)) \<noteq> Throwing"
    by (simp add: toggle_store setItem_local_kind)
  then show "safeStorage_getItem ''audioAlertsEnabled''
            (store (toggleAudioAlerts e (toggleAudioAlerts e p))) =
          Some (bool_toString (audioEnabled (toggleAudioAlerts e (toggleAudioAlerts e p))))"
    by (rule toggle_stored)
qed

theorem audio_toggle_behaviour_witness:
  "\<not> audioEnabled muted_page \<and> controls muted_page ''audioToggle'' \<noteq> None
   \<and> AudioContextClass sample_env \<noteq> Some CtorThrows
   \<and> localStorage (store muted_page) \<noteq> Throwing
   \<and> playSuccessSound muted_page = muted_page
   \<and> audioEnabled (toggleAudioAlerts sample_env muted_page)
   \<and> audioContext (toggleAudioAlerts sample_env muted_page) = Some Suspended
   \<and> \<lparr>frequency = 600, duration = 0.15, waveform = ''sine'', volume = 0.2\<rparr>
        \<in> set (tones (advance 100 (toggleAudioAlerts sample_env muted_page)))
   \<and> live_text (toggleAudioAlerts sample_env muted_page) = Some ''Audio alerts enabled.''
   \<and> audioEnabled (toggleAudioAlerts sample_env (toggleAudioAlerts sample_env muted_page))
        = audioEnabled muted_page
   \<and> safeStorage_getItem ''audioAlertsEnabled'' (store (toggleAudioAlerts sample_env muted_page))
        = Some ''true''
   \<and> audioContext muted_page = None
   \<and> AudioContextClass (sample_env\<lparr>AudioContextClass := Some CtorThrows\<rparr>) = Some CtorThrows
   \<and> \<not> audioEnabled
         (toggleAudioAlerts (sample_env\<lparr>AudioContextClass := Some CtorThrows\<rparr>) muted_page)
   \<and> live_text (toggleAudioAlerts (sample_env\<lparr>AudioContextClass := Some CtorThrows\<rparr>) muted_page)
        = Some ''Audio alerts enabled.''
   \<and> controls page_init ''audioToggle'' = None
   \<and> toggleAudioAlerts sample_env page_init =
        page_init\<lparr>audioEnabled := False,
          store := safeStorage_setItem ''audioAlertsEnabled'' ''false'' (store page_init)\<rparr>"
proof -
  have h: "\<not> audioEnabled muted_page" "controls muted_page ''audioToggle'' \<noteq> None"
    "AudioContextClass sample_env \<noteq> Some CtorThrows" "localStorage (store muted_page) \<noteq> Throwing"
    "audioContext muted_page = None" "AudioContextClass sample_env = Some (CtorYields Suspended)"
    by (simp_all add: muted_page_def page_init_def sample_env_def)
  have i: "controls page_init ''audioToggle'' = None" "audioEnabled page_init"
    by (simp_all add: page_init_def)
  from audio_toggle_behaviour [of muted_page sample_env]
    audio_toggle_behaviour [of muted_page "sample_env\<lparr>AudioContextClass := Some CtorThrows\<rparr>"]
    audio_toggle_behaviour [of page_init sample_env] h i
  show ?thesis by (simp add: bool_toString_def)
qed

text \<open>
  Where the claim fails: on a page without the \<open>#audioToggle\<close> control, toggling while muted
  constructs no context, schedules no tone and announces nothing; on a page with the control
  but a context constructor that throws, two toggles starting from enabled end disabled; and
  with a \<open>localStorage\<close> that throws, no preference is stored.
\<close>

theorem audio_toggle_counterexample:
  "\<not> audioEnabled (page_init\<lparr>audioEnabled := False\<rparr>)
   \<and> audioContext (toggleAudioAlerts sample_env (page_init\<lparr>audioEnabled := False\<rparr>)) = None
   \<and> timers (toggleAudioAlerts sample_env (page_init\<lparr>audioEnabled := False\<rparr>)) = []
   \<and> liveRegion (toggleAudioAlerts sample_env (page_init\<lparr>audioEnabled := False\<rparr>)) = None
   \<and> audioEnabled (muted_page\<lparr>audioEnabled := True\<rparr>)
   \<and> \<not> audioEnabled
         (toggleAudioAlerts (sample_env\<lparr>AudioContextClass := Some CtorThrows\<rparr>)
            (toggleAudioAlerts (sample_env\<lparr>AudioContextClass := Some CtorThrows\<rparr>)
               (muted_page\<lparr>audioEnabled := True\<rparr>)))
   \<and> safeStorage_getItem ''audioAlertsEnabled''
        (store (toggleAudioAlerts sample_env
           (page_init\<lparr>store := (store page_init)\<lparr>localStorage := Throwing\<rparr>\<rparr>))) = None"
  by (simp add: toggle_audioEnabled toggle_audioContext toggle_has_control toggle_not_stored)
     (simp add: toggle_defs page_init_def muted_page_def)
section \<open>Properties of screen reader detection\<close>

text \<open>
  C6. \<open>detectScreenReader\<close> depends on nothing but the stored preference, the speech capability
  and the operating system signatures of the user agent, and it decides in the specification's
  order. In particular a Windows signature without speech capability gives \<open>nvda\<close> when the
  preference is \<open>auto\<close>.
\<close>

theorem detect_decision_order:
  "detectScreenReader e st =
     detect_spec (js_get st ''screenReaderMode'') (has_speech e) (os_windows e) (os_apple e)
       (os_android e) (os_linux e)
   \<and> (js_get st ''screenReaderMode'' = Str ''auto'' \<and> os_windows e \<and> \<not> has_speech e \<longrightarrow>
        detectScreenReader e st = Str ''nvda'')"
  by (simp add: detectScreenReader_def detect_spec_def has_speech_def os_windows_def os_apple_def
      os_android_def os_linux_def Let_def)

theorem detect_decision_order_witness:
  "js_get a11yState_init ''screenReaderMode'' = Str ''auto'' \<and> os_windows sample_env
   \<and> \<not> has_speech sample_env \<and> detectScreenReader sample_env a11yState_init = Str ''nvda''"
proof -
  have h: "js_get a11yState_init ''screenReaderMode'' = Str ''auto'' \<and> os_windows sample_env
      \<and> \<not> has_speech sample_env"
    by code_simp
  with detect_decision_order [of sample_env a11yState_init] show ?thesis by blast
qed

section \<open>Properties of loading the settings\<close>

lemma js_get_js_set: "js_get (js_set k v st) k' = (if k' = k then v else js_get st k')"
  by (simp add: js_get_def js_set_def update_conv')

lemma map_of_js_set: "map_of (js_set k v st) = (map_of st)(k \<mapsto> v)"
  by (simp add: js_set_def update_conv')

lemma js_set_same: "map_of st k \<noteq> None \<Longrightarrow> js_set k (js_get st k) st = st"
  by (auto simp: js_set_def js_get_def update_triv)

lemma map_of_put_property:
  "k' \<noteq> ''__proto__'' \<Longrightarrow>
     map_of (fst (put_property k v tp)) k' = ((map_of (fst tp))(k \<mapsto> v)) k'"
  by (auto simp: put_property_def map_of_js_set)

lemma map_of_fold_put:
  "k' \<noteq> ''__proto__'' \<Longrightarrow>
     map_of (fst (fold (\<lambda>(k, v). put_property k v) ps tp)) k' =
       (map_of (fst tp) ++ map_of (rev ps)) k'"
proof (induction ps arbitrary: tp)
  case Nil
  then show ?case by simp
next
  case (Cons kv ps)
  obtain k v where kv: "kv = (k, v)" by (cases kv)
  have "map_of (fst (fold (\<lambda>(k, v). put_property k v) (kv # ps) tp)) k' =
        (map_of (fst (put_property k v tp)) ++ map_of (rev ps)) k'"
    using Cons.prems by (simp add: kv Cons.IH)
  also have "\<dots> = ((map_of (fst tp))(k \<mapsto> v) ++ map_of (rev ps)) k'"
    using Cons.prems by (simp add: map_add_def map_of_put_property split: option.splits)
  also have "\<dots> = (map_of (fst tp) ++ map_of (rev (kv # ps))) k'"
    by (simp add: kv map_add_def split: option.splits)
  finally show ?case .
qed

lemma own_Object_assign:
  "k \<noteq> ''__proto__'' \<Longrightarrow>
     map_of (fst (Object_assign tp v)) k =
       (case snapshot_value v k of Some x \<Rightarrow> Some x | None \<Rightarrow> map_of (fst tp) k)"
  by (simp add: Object_assign_def snapshot_value_def map_of_fold_put map_add_def
      split: option.splits)

lemma js_get_Object_assign:
  "k \<noteq> ''__proto__'' \<Longrightarrow>
     js_get (fst (Object_assign tp v)) k =
       (case snapshot_value v k of Some x \<Rightarrow> x | None \<Rightarrow> js_get (fst tp) k)"
  by (simp add: js_get_def own_Object_assign split: option.splits)

lemma fold_put_proto:
  assumes "distinct (map fst ps)" and "map_of (fst tp) ''__proto__'' = None"
    and "''__proto__'' \<in> fst ` set ps \<longrightarrow> inherits_proto_setter (snd tp)"
  shows "map_of (fst (fold (\<lambda>(k, v). put_property k v) ps tp)) ''__proto__'' = None
       \<and> snd (fold (\<lambda>(k, v). put_property k v) ps tp) =
           (case map_of ps ''__proto__'' of
              Some x \<Rightarrow> set_prototype x (snd tp) | None \<Rightarrow> snd tp)"
  using assms
proof (induction ps arbitrary: tp)
  case Nil
  then show ?case by simp
next
  case (Cons kv ps)
  obtain k v where kv: "kv = (k, v)" by (cases kv)
  show ?case
  proof (cases "k = ''__proto__''")
    case True
    with Cons.prems kv have put: "put_property k v tp = (fst tp, set_prototype v (snd tp))"
      by (simp add: put_property_def)
    from Cons.prems kv True have notin: "''__proto__'' \<notin> fst ` set ps" by auto
    then have none: "map_of ps ''__proto__'' = None" by (simp add: map_of_eq_None_iff)
    from Cons.prems kv have d: "distinct (map fst ps)" by simp
    have "map_of (fst (fold (\<lambda>(k, v). put_property k v) ps (fst tp, set_prototype v (snd tp))))
            ''__proto__'' = None
       \<and> snd (fold (\<lambda>(k, v). put_property k v) ps (fst tp, set_prototype v (snd tp))) =
           (case map_of ps ''__proto__'' of
              Some x \<Rightarrow> set_prototype x (snd (fst tp, set_prototype v (snd tp)))
            | None \<Rightarrow> snd (fst tp, set_prototype v (snd tp)))"
      using Cons.prems(2) notin by (intro Cons.IH d) simp_all
    moreover have "fold (\<lambda>(k, v). put_property k v) (kv # ps) tp =
        fold (\<lambda>(k, v). put_property k v) ps (fst tp, set_prototype v (snd tp))"
      by (simp add: kv put)
    moreover have "map_of (kv # ps) ''__proto__'' = Some v" by (simp add: kv True)
    ultimately show ?thesis by (simp add: none)
  next
    case False
    then have put: "put_property k v tp = (js_set k v (fst tp), snd tp)"
      by (simp add: put_property_def)
    from Cons.prems kv have d: "distinct (map fst ps)" by simp
    have "map_of (fst (fold (\<lambda>(k, v). put_property k v) ps (js_set k v (fst tp), snd tp)))
            ''__proto__'' = None
       \<and> snd (fold (\<lambda>(k, v). put_property k v) ps (js_set k v (fst tp), snd tp)) =
           (case map_of ps ''__proto__'' of
              Some x \<Rightarrow> set_prototype x (snd (js_set k v (fst tp), snd tp))
            | None \<Rightarrow> snd (js_set k v (fst tp), snd tp))"
      using Cons.prems kv False by (intro Cons.IH d) (simp_all add: map_of_js_set)
    moreover have "fold (\<lambda>(k, v). put_property k v) (kv # ps) tp =
        fold (\<lambda>(k, v). put_property k v) ps (js_set k v (fst tp), snd tp)"
      by (simp add: kv put)
    moreover have "map_of (kv # ps) ''__proto__'' = map_of ps ''__proto__''"
      using False by (simp add: kv)
    ultimately show ?thesis by (simp split: option.splits)
  qed
qed

lemma map_of_rev_distinct:
  assumes "distinct (map fst ps)"
  shows "map_of (rev ps) = map_of ps"
proof -
  have "map fst (rev ps) = rev (map fst ps)" by (simp add: rev_map)
  with assms have "distinct (map fst (rev ps))" by simp
  then show ?thesis using assms by (simp add: map_of_inject_set)
qed

lemma proto_Object_assign:
  assumes "distinct (map fst (own_properties v))" and "map_of st ''__proto__'' = None"
  shows "map_of (fst (Object_assign (st, Object_prototype) v)) ''__proto__'' = None"
    and "snd (Object_assign (st, Object_prototype) v) =
           (case snapshot_value v ''__proto__'' of
              Some x \<Rightarrow> set_prototype x Object_prototype | None \<Rightarrow> Object_prototype)"
  using fold_put_proto [of "own_properties v" "(st, Object_prototype)"] assms
  by (simp_all add: Object_assign_def snapshot_value_def map_of_rev_distinct split: option.splits)

lemma a11yState_set_state [simp]: "a11yState (set_state k v p) = js_set k v (a11yState p)"
  by (simp add: set_state_def)

lemma a11yState_save [simp]: "a11yState (saveA11ySettings e p) = a11yState p"
  by (simp add: saveA11ySettings_def)

lemma a11yState_announce [simp]: "a11yState (announce m p) = a11yState p"
  by (simp add: announce_def announceToScreenReader_def ensureLiveRegion_def setTimeout_def Let_def
      split: option.splits)

lemma a11yState_playInfoSound [simp]: "a11yState (playInfoSound p) = a11yState p"
  by (simp add: playInfoSound_def playTone_def)

lemma a11yState_toggle_body_class [simp]: "a11yState (toggle_body_class t v p) = a11yState p"
  by (simp add: toggle_body_class_def)

lemma a11yState_toggleHighContrast:
  "a11yState (toggleHighContrast e v p) = js_set ''highContrast'' v (a11yState p)"
  by (simp add: toggleHighContrast_def Let_def)

lemma a11yState_setTextSize:
  "a11yState (final_page (setTextSize e v p)) = js_set ''textSize'' v (a11yState p)"
  by (simp add: setTextSize_def Let_def set_widget_text_def split: option.splits sum.splits)

lemma a11yState_setColorScheme:
  "a11yState (final_page (setColorScheme e v p)) = js_set ''colorScheme'' v (a11yState p)"
  by (simp add: setColorScheme_def Let_def split: sum.splits)

lemma a11yState_toggleEnhancedFocus:
  "a11yState (toggleEnhancedFocus e v p) = js_set ''enhancedFocus'' v (a11yState p)"
  by (simp add: toggleEnhancedFocus_def)

lemma a11yState_toggleReduceMotion:
  "a11yState (toggleReduceMotion e v p) = js_set ''reduceMotion'' v (a11yState p)"
  by (simp add: toggleReduceMotion_def)

lemma a11yState_toggleSimpleLanguage:
  "a11yState (toggleSimpleLanguage e v p) = js_set ''simpleLanguage'' v (a11yState p)"
  by (simp add: toggleSimpleLanguage_def Let_def applySimpleLanguage_def removeSimpleLanguage_def)

lemma a11yState_toggleReadingGuide:
  "a11yState (toggleReadingGuide e v p) = js_set ''readingGuide'' v (a11yState p)"
  by (simp add: toggleReadingGuide_def Let_def updateReadingGuide_def addEventListener_def
      removeEventListener_def)

lemma a11yState_toggleTabOrder:
  "a11yState (toggleTabOrder e v p) = js_set ''tabOrder'' v (a11yState p)"
  by (simp add: toggleTabOrder_def Let_def updateTabIndicator_def addEventListener_def
      removeEventListener_def split: option.splits)

lemma a11yState_set_checked [simp]: "a11yState (set_checked i b p) = a11yState p"
  by (simp add: set_checked_def split: option.splits)

lemma a11yState_set_aria_checked [simp]: "a11yState (set_aria_checked i b p) = a11yState p"
  by (simp add: set_aria_checked_def split: option.splits)

lemma a11yState_set_select_value [simp]: "a11yState (set_select_value i b p) = a11yState p"
  by (simp add: set_select_value_def split: option.splits)


lemma a11yState_sync_controls: "a11yState (final_page (sync_controls p)) = a11yState p"
  by (simp add: sync_controls_def Let_def split: sum.splits)

lemma a11yState_applyScreenReaderOptimizations:
  "a11yState (final_page (applyScreenReaderOptimizations e p)) = a11yState p"
  by (cases "add_marker ''sr-optimize-'' (detectScreenReader e (a11yState p))
               (strip_marker ''sr-optimize-'' (body_class p))")
     (simp_all add: applyScreenReaderOptimizations_def Let_def)

text \<open>Nothing but \<open>Object.assign\<close> touches the prototype of the record.\<close>

lemma prototype_set_state [simp]: "a11yState_prototype (set_state k v p) = a11yState_prototype p"
  by (simp add: set_state_def)

lemma prototype_save [simp]: "a11yState_prototype (saveA11ySettings e p) = a11yState_prototype p"
  by (simp add: saveA11ySettings_def)

lemma prototype_announce [simp]: "a11yState_prototype (announce m p) = a11yState_prototype p"
  by (simp add: announce_def announceToScreenReader_def ensureLiveRegion_def setTimeout_def Let_def
      split: option.splits)

lemma prototype_playInfoSound [simp]:
  "a11yState_prototype (playInfoSound p) = a11yState_prototype p"
  by (simp add: playInfoSound_def playTone_def)

lemma prototype_toggle_body_class [simp]:
  "a11yState_prototype (toggle_body_class t v p) = a11yState_prototype p"
  by (simp add: toggle_body_class_def)

lemma prototype_set_checked [simp]:
  "a11yState_prototype (set_checked i b p) = a11yState_prototype p"
  by (simp add: set_checked_def split: option.splits)

lemma prototype_set_aria_checked [simp]:
  "a11yState_prototype (set_aria_checked i b p) = a11yState_prototype p"
  by (simp add: set_aria_checked_def split: option.splits)

lemma prototype_set_select_value [simp]:
  "a11yState_prototype (set_select_value i b p) = a11yState_prototype p"
  by (simp add: set_select_value_def split: option.splits)

lemma prototype_applicators [simp]:
  "a11yState_prototype (toggleHighContrast e v p) = a11yState_prototype p"
  "a11yState_prototype (final_page (setTextSize e v p)) = a11yState_prototype p"
  "a11yState_prototype (final_page (setColorScheme e v p)) = a11yState_prototype p"
  "a11yState_prototype (toggleEnhancedFocus e v p) = a11yState_prototype p"
  "a11yState_prototype (toggleReduceMotion e v p) = a11yState_prototype p"
  "a11yState_prototype (toggleSimpleLanguage e v p) = a11yState_prototype p"
  "a11yState_prototype (toggleReadingGuide e v p) = a11yState_prototype p"
  "a11yState_prototype (toggleTabOrder e v p) = a11yState_prototype p"
  "a11yState_prototype (final_page (sync_controls p)) = a11yState_prototype p"
  "a11yState_prototype (final_page (applyScreenReaderOptimizations e p)) = a11yState_prototype p"
proof -
  show "a11yState_prototype (toggleHighContrast e v p) = a11yState_prototype p"
    by (simp add: toggleHighContrast_def Let_def)
  show "a11yState_prototype (final_page (setTextSize e v p)) = a11yState_prototype p"
    by (simp add: setTextSize_def Let_def set_widget_text_def split: option.splits sum.splits)
  show "a11yState_prototype (final_page (setColorScheme e v p)) = a11yState_prototype p"
    by (simp add: setColorScheme_def Let_def split: sum.splits)
  show "a11yState_prototype (toggleEnhancedFocus e v p) = a11yState_prototype p"
    by (simp add: toggleEnhancedFocus_def)
  show "a11yState_prototype (toggleReduceMotion e v p) = a11yState_prototype p"
    by (simp add: toggleReduceMotion_def)
  show "a11yState_prototype (toggleSimpleLanguage e v p) = a11yState_prototype p"
    by (simp add: toggleSimpleLanguage_def Let_def applySimpleLanguage_def
        removeSimpleLanguage_def)
  show "a11yState_prototype (toggleReadingGuide e v p) = a11yState_prototype p"
    by (simp add: toggleReadingGuide_def Let_def updateReadingGuide_def addEventListener_def
        removeEventListener_def)
  show "a11yState_prototype (toggleTabOrder e v p) = a11yState_prototype p"
    by (simp add: toggleTabOrder_def Let_def updateTabIndicator_def addEventListener_def
        removeEventListener_def split: option.splits)
  show "a11yState_prototype (final_page (sync_controls p)) = a11yState_prototype p"
    by (simp add: sync_controls_def Let_def split: sum.splits)
  show "a11yState_prototype (final_page (applyScreenReaderOptimizations e p)) =
          a11yState_prototype p"
    by (cases "add_marker ''sr-optimize-'' (detectScreenReader e (a11yState p))
                 (strip_marker ''sr-optimize-'' (body_class p))")
       (simp_all add: applyScreenReaderOptimizations_def Let_def)
qed

text \<open>When a step of the pass completes.\<close>

lemma final_page_and_then:
  "final_page (and_then r f) = (if completed r then final_page (f (final_page r)) else final_page r)"
  by (cases r) simp_all

lemma completed_and_then:
  "completed (and_then r f) = (completed r \<and> completed (f (final_page r)))"
  by (cases r) simp_all

lemma completed_setTextSize: "completed (setTextSize e v p) = string_convertible v"
  by (simp add: setTextSize_def ToString_def Let_def)

lemma add_marker_throws:
  "pre \<noteq> [] \<Longrightarrow> \<not> list_ex ascii_whitespace pre \<Longrightarrow>
     isl (add_marker pre v cls) = marker_throws v"
  by (auto simp: add_marker_def ToString_def classList_add_def marker_throws_def)

lemma color_prefix: "''color-'' \<noteq> [] \<and> \<not> list_ex ascii_whitespace ''color-''"
  by code_simp

lemma sr_prefix: "''sr-optimize-'' \<noteq> [] \<and> \<not> list_ex ascii_whitespace ''sr-optimize-''"
  by code_simp

lemma completed_setColorScheme:
  "completed (setColorScheme e v p) = (v = Str ''default'' \<or> \<not> marker_throws v)"
proof (cases "v = Str ''default''")
  case True
  then show ?thesis by (simp add: setColorScheme_def Let_def)
next
  case False
  from add_marker_throws [of "''color-''" v] color_prefix
  have "isl (add_marker ''color-'' v
               (strip_marker ''color-'' (body_class (set_state ''colorScheme'' v p))))
          = marker_throws v"
    by blast
  with False show ?thesis
    by (cases "add_marker ''color-'' v
                 (strip_marker ''color-'' (body_class (set_state ''colorScheme'' v p)))")
       (auto simp: setColorScheme_def Let_def)
qed

lemma controls_set_checked:
  "(controls (set_checked i b p) k = None) = (controls p k = None)"
  by (simp add: set_checked_def split: option.splits)

lemma controls_set_aria_checked:
  "(controls (set_aria_checked i b p) k = None) = (controls p k = None)"
  by (simp add: set_aria_checked_def split: option.splits)

lemma completed_sync_controls:
  "completed (sync_controls p) =
     (controls p ''screenReaderMode'' = None
      \<or> string_convertible (js_get (a11yState p) ''screenReaderMode''))"
  by (simp add: sync_controls_def Let_def ToString_def controls_set_checked
      controls_set_aria_checked)

lemma completed_applyScreenReaderOptimizations:
  "completed (applyScreenReaderOptimizations e p) =
     (\<not> marker_throws (detectScreenReader e (a11yState p)))"
proof -
  from add_marker_throws [of "''sr-optimize-''" "detectScreenReader e (a11yState p)"] sr_prefix
  have "isl (add_marker ''sr-optimize-'' (detectScreenReader e (a11yState p))
               (strip_marker ''sr-optimize-'' (body_class p)))
          = marker_throws (detectScreenReader e (a11yState p))"
    by blast
  then show ?thesis
    by (cases "add_marker ''sr-optimize-'' (detectScreenReader e (a11yState p))
                 (strip_marker ''sr-optimize-'' (body_class p))")
       (auto simp: applyScreenReaderOptimizations_def Let_def)
qed

lemma reader_names_plain:
  "\<not> marker_throws (Str ''voiceover'')" "\<not> marker_throws (Str ''narrator'')"
  "\<not> marker_throws (Str ''nvda'')" "\<not> marker_throws (Str ''talkback'')"
  "\<not> marker_throws (Str ''orca'')"
  by code_simp+

lemma detected_marker_throws:
  "marker_throws (detectScreenReader e st) =
     (js_get st ''screenReaderMode'' \<noteq> Str ''auto''
      \<and> marker_throws (js_get st ''screenReaderMode''))"
  by (simp add: detectScreenReader_def Let_def reader_names_plain split: option.splits)

lemma own_keys:
  assumes "\<forall>k \<in> set applied_keys. map_of st k \<noteq> None"
  shows "js_set ''highContrast'' (js_get st ''highContrast'') st = st"
    "js_set ''textSize'' (js_get st ''textSize'') st = st"
    "js_set ''colorScheme'' (js_get st ''colorScheme'') st = st"
    "js_set ''enhancedFocus'' (js_get st ''enhancedFocus'') st = st"
    "js_set ''reduceMotion'' (js_get st ''reduceMotion'') st = st"
    "js_set ''simpleLanguage'' (js_get st ''simpleLanguage'') st = st"
    "js_set ''readingGuide'' (js_get st ''readingGuide'') st = st"
    "js_set ''tabOrder'' (js_get st ''tabOrder'') st = st"
  using assms by (simp_all add: applied_keys_def js_set_same)

lemma pass_tail:
  assumes "\<forall>k \<in> set applied_keys. map_of (a11yState q) k \<noteq> None"
    and "r =
     (let p4 = toggleEnhancedFocus e (js_get (a11yState q) ''enhancedFocus'') q;
          p5 = toggleReduceMotion e (js_get (a11yState p4) ''reduceMotion'') p4;
          p6 = toggleSimpleLanguage e (js_get (a11yState p5) ''simpleLanguage'') p5;
          p7 = toggleReadingGuide e (js_get (a11yState p6) ''readingGuide'') p6;
          p8 = toggleTabOrder e (js_get (a11yState p7) ''tabOrder'') p7
      in and_then (sync_controls p8) (applyScreenReaderOptimizations e))"
  shows "a11yState (final_page r) = a11yState q"
    and "a11yState_prototype (final_page r) = a11yState_prototype q"
    and "completed r =
           (\<not> (js_get (a11yState q) ''screenReaderMode'' \<noteq> Str ''auto''
               \<and> marker_throws (js_get (a11yState q) ''screenReaderMode'')))"
proof -
  note same = own_keys [OF assms(1)]
  define p8 where "p8 =
     (let p4 = toggleEnhancedFocus e (js_get (a11yState q) ''enhancedFocus'') q;
          p5 = toggleReduceMotion e (js_get (a11yState p4) ''reduceMotion'') p4;
          p6 = toggleSimpleLanguage e (js_get (a11yState p5) ''simpleLanguage'') p5;
          p7 = toggleReadingGuide e (js_get (a11yState p6) ''readingGuide'') p6
      in toggleTabOrder e (js_get (a11yState p7) ''tabOrder'') p7)"
  have r: "r = and_then (sync_controls p8) (applyScreenReaderOptimizations e)"
    by (simp add: assms(2) p8_def Let_def)
  have s8: "a11yState p8 = a11yState q"
    by (simp add: p8_def Let_def a11yState_toggleTabOrder a11yState_toggleReadingGuide
        a11yState_toggleSimpleLanguage a11yState_toggleReduceMotion
        a11yState_toggleEnhancedFocus same)
  have t8: "a11yState_prototype p8 = a11yState_prototype q"
    by (simp add: p8_def Let_def)
  show "a11yState (final_page r) = a11yState q"
    by (simp add: r final_page_and_then a11yState_applyScreenReaderOptimizations
        a11yState_sync_controls s8)
  show "a11yState_prototype (final_page r) = a11yState_prototype q"
    by (simp add: r final_page_and_then t8)
  have conv: "\<not> marker_throws v \<Longrightarrow> string_convertible v" for v
    by (simp add: marker_throws_def)
  show "completed r =
           (\<not> (js_get (a11yState q) ''screenReaderMode'' \<noteq> Str ''auto''
               \<and> marker_throws (js_get (a11yState q) ''screenReaderMode'')))"
    using conv [of "js_get (a11yState q) ''screenReaderMode''"]
    by (auto simp: r completed_and_then completed_sync_controls
        completed_applyScreenReaderOptimizations a11yState_sync_controls s8
        detected_marker_throws)
qed

lemma applyAll_pass:
  assumes "\<forall>k \<in> set applied_keys. map_of (a11yState p) k \<noteq> None"
  shows "a11yState (final_page (applyAllA11ySettings e p)) = a11yState p"
    and "a11yState_prototype (final_page (applyAllA11ySettings e p)) = a11yState_prototype p"
    and "completed (applyAllA11ySettings e p) = (\<not> reconcile_throws (js_get (a11yState p)))"
proof -
  note same = own_keys [OF assms(1)]
  define p1 where "p1 = toggleHighContrast e (js_get (a11yState p) ''highContrast'') p"
  define r2 where "r2 = setTextSize e (js_get (a11yState p1) ''textSize'') p1"
  define r3 where "r3 = setColorScheme e (js_get (a11yState (final_page r2)) ''colorScheme'')
    (final_page r2)"
  define tail where "tail = (\<lambda>p3.
     let p4 = toggleEnhancedFocus e (js_get (a11yState p3) ''enhancedFocus'') p3;
         p5 = toggleReduceMotion e (js_get (a11yState p4) ''reduceMotion'') p4;
         p6 = toggleSimpleLanguage e (js_get (a11yState p5) ''simpleLanguage'') p5;
         p7 = toggleReadingGuide e (js_get (a11yState p6) ''readingGuide'') p6;
         p8 = toggleTabOrder e (js_get (a11yState p7) ''tabOrder'') p7
     in and_then (sync_controls p8) (applyScreenReaderOptimizations e))"
  have s1: "a11yState p1 = a11yState p"
    by (simp add: p1_def a11yState_toggleHighContrast same)
  have s2: "a11yState (final_page r2) = a11yState p"
    by (simp add: r2_def a11yState_setTextSize s1 same)
  have s3: "a11yState (final_page r3) = a11yState p"
    by (simp add: r3_def a11yState_setColorScheme s2 same)
  have t3: "a11yState_prototype (final_page r3) = a11yState_prototype p"
    "a11yState_prototype (final_page r2) = a11yState_prototype p"
    by (simp_all add: r3_def r2_def p1_def)
  from assms s3 have own3: "\<forall>k \<in> set applied_keys. map_of (a11yState (final_page r3)) k \<noteq> None"
    by simp
  have tl_eq: "tail (final_page r3) =
     (let p4 = toggleEnhancedFocus e (js_get (a11yState (final_page r3)) ''enhancedFocus'')
                 (final_page r3);
          p5 = toggleReduceMotion e (js_get (a11yState p4) ''reduceMotion'') p4;
          p6 = toggleSimpleLanguage e (js_get (a11yState p5) ''simpleLanguage'') p5;
          p7 = toggleReadingGuide e (js_get (a11yState p6) ''readingGuide'') p6;
          p8 = toggleTabOrder e (js_get (a11yState p7) ''tabOrder'') p7
      in and_then (sync_controls p8) (applyScreenReaderOptimizations e))"
    by (simp only: tail_def)
  note tl = pass_tail [OF own3 tl_eq]
  have c2: "completed r2 = string_convertible (js_get (a11yState p) ''textSize'')"
    by (simp add: r2_def completed_setTextSize s1)
  have c3: "completed r3 = (js_get (a11yState p) ''colorScheme'' = Str ''default''
      \<or> \<not> marker_throws (js_get (a11yState p) ''colorScheme''))"
    by (simp add: r3_def completed_setColorScheme s2)
  have unfold: "applyAllA11ySettings e p =
      and_then r2 (\<lambda>p2. and_then (setColorScheme e (js_get (a11yState p2) ''colorScheme'') p2) tail)"
    by (simp add: applyAllA11ySettings_def Let_def r2_def p1_def tail_def)
  have fin: "final_page (applyAllA11ySettings e p) =
      (if completed r2 then (if completed r3 then final_page (tail (final_page r3))
                             else final_page r3)
       else final_page r2)"
    by (simp add: unfold final_page_and_then r3_def)
  have com: "completed (applyAllA11ySettings e p) =
      (completed r2 \<and> completed r3 \<and> completed (tail (final_page r3)))"
    by (auto simp: unfold completed_and_then final_page_and_then r3_def)
  show "a11yState (final_page (applyAllA11ySettings e p)) = a11yState p"
    by (simp add: fin tl s3 s2)
  show "a11yState_prototype (final_page (applyAllA11ySettings e p)) = a11yState_prototype p"
    by (simp add: fin tl t3)
  show "completed (applyAllA11ySettings e p) = (\<not> reconcile_throws (js_get (a11yState p)))"
    by (auto simp: com c2 c3 tl s3 reconcile_throws_def)
qed

lemma load_absent:
  "stored_snapshot e p = None \<Longrightarrow>
     loadA11ySettings e p = set_state ''keyboardShortcuts'' (Bool True) p"
  by (auto simp: stored_snapshot_def loadA11ySettings_def split: option.splits if_splits)

lemma init_keyboardShortcuts:
  "js_set ''keyboardShortcuts'' (Bool True) a11yState_init = a11yState_init"
  by (simp add: js_set_def a11yState_init_def)

lemma load_unchanged:
  assumes "stored_snapshot e p = None" and "a11yState p = a11yState_init"
  shows "loadA11ySettings e p = p"
proof -
  have "set_state ''keyboardShortcuts'' (Bool True) p = p\<lparr>a11yState := a11yState p\<rparr>"
    by (simp add: set_state_def assms(2) init_keyboardShortcuts)
  then show ?thesis by (simp add: load_absent [OF assms(1)])
qed

lemma load_present:
  assumes "stored_snapshot e p = Some v"
  shows "loadA11ySettings e p =
     (let merged = Object_assign (a11yState p, a11yState_prototype p) v;
          p1 = p\<lparr>a11yState := fst merged, a11yState_prototype := snd merged\<rparr>;
          p2 = (if js_get (a11yState p1) ''keyboardShortcuts'' = Undefined
                   \<or> js_get (a11yState p1) ''keyboardShortcuts'' = Null
                then set_state ''keyboardShortcuts'' (Bool True) p1 else p1)
      in case applyAllA11ySettings e p2 of
           Completed q \<Rightarrow> q
         | Thrown err q \<Rightarrow> set_state ''keyboardShortcuts'' (Bool True) q)"
  using assms
  by (auto simp: stored_snapshot_def loadA11ySettings_def split: option.splits if_splits)

lemma init_own:
  "k \<in> set applied_keys \<Longrightarrow> map_of a11yState_init k \<noteq> None"
  "k \<in> set applied_keys \<Longrightarrow> k \<noteq> ''__proto__''"
  "k \<in> set applied_keys \<Longrightarrow> k \<noteq> ''keyboardShortcuts''"
  "map_of a11yState_init ''__proto__'' = None"
  by (auto simp: applied_keys_def a11yState_init_def)

lemma reconcile_throws_cong:
  assumes "m ''textSize'' = m' ''textSize''" and "m ''colorScheme'' = m' ''colorScheme''"
    and "m ''screenReaderMode'' = m' ''screenReaderMode''"
  shows "reconcile_throws m = reconcile_throws m'"
  by (simp add: reconcile_throws_def assms)

lemma load_record:
  assumes "a11yState p = a11yState_init" and "stored_snapshot e p = Some v"
    and "m = fst (Object_assign (a11yState_init, a11yState_prototype p) v)"
    and "m' = (if js_get m ''keyboardShortcuts'' = Undefined \<or> js_get m ''keyboardShortcuts'' = Null
               then js_set ''keyboardShortcuts'' (Bool True) m else m)"
  shows "a11yState (loadA11ySettings e p) =
           (if reconcile_throws (js_get m) then js_set ''keyboardShortcuts'' (Bool True) m' else m')"
    and "a11yState_prototype (loadA11ySettings e p) =
           snd (Object_assign (a11yState_init, a11yState_prototype p) v)"
proof -
  define p1 where "p1 = p\<lparr>a11yState := m,
    a11yState_prototype := snd (Object_assign (a11yState_init, a11yState_prototype p) v)\<rparr>"
  define p2 where "p2 = (if js_get (a11yState p1) ''keyboardShortcuts'' = Undefined
                   \<or> js_get (a11yState p1) ''keyboardShortcuts'' = Null
                then set_state ''keyboardShortcuts'' (Bool True) p1 else p1)"
  have l: "loadA11ySettings e p =
      (case applyAllA11ySettings e p2 of
           Completed q \<Rightarrow> q
         | Thrown err q \<Rightarrow> set_state ''keyboardShortcuts'' (Bool True) q)"
    by (simp add: load_present [OF assms(2)] Let_def p2_def p1_def assms(1,3))
  have s2: "a11yState p2 = m'" by (simp add: p2_def p1_def assms(4))
  have t2: "a11yState_prototype p2 =
      snd (Object_assign (a11yState_init, a11yState_prototype p) v)"
    by (simp add: p2_def p1_def)
  have own_m: "map_of m k \<noteq> None" if "k \<in> set applied_keys" for k
    using that init_own(1,2) [OF that]
    by (simp add: assms(3) own_Object_assign split: option.splits)
  have "map_of m' k \<noteq> None" if "k \<in> set applied_keys" for k
    using own_m [OF that] by (simp add: assms(4) map_of_js_set)
  then have own2: "\<forall>k \<in> set applied_keys. map_of (a11yState p2) k \<noteq> None"
    by (simp add: s2)
  note pass = applyAll_pass [OF own2, of e]
  have rt: "reconcile_throws (js_get m') = reconcile_throws (js_get m)"
    by (rule reconcile_throws_cong) (simp_all add: assms(4) js_get_js_set)
  show "a11yState (loadA11ySettings e p) =
           (if reconcile_throws (js_get m) then js_set ''keyboardShortcuts'' (Bool True) m' else m')"
    using pass(1,3)
    by (cases "applyAllA11ySettings e p2") (simp_all add: l s2 rt)
  show "a11yState_prototype (loadA11ySettings e p) =
           snd (Object_assign (a11yState_init, a11yState_prototype p) v)"
    using pass(2)
    by (cases "applyAllA11ySettings e p2") (simp_all add: l t2)
qed

lemma merged_Object_assign:
  "k \<noteq> ''__proto__'' \<Longrightarrow>
     js_get (fst (Object_assign (a11yState_init, proto) v)) k = merged_value v k"
  by (simp add: js_get_Object_assign merged_value_def split: option.splits)

lemma load_own:
  assumes "a11yState p = a11yState_init" and "stored_snapshot e p = Some v"
    and "k \<noteq> ''keyboardShortcuts''" and "k \<noteq> ''__proto__''"
  shows "map_of (a11yState (loadA11ySettings e p)) k =
           (case snapshot_value v k of Some x \<Rightarrow> Some x | None \<Rightarrow> map_of a11yState_init k)"
  using assms(3,4)
  by (simp add: load_record(1) [OF assms(1,2) refl refl] map_of_js_set own_Object_assign
      split: option.splits)

lemma load_reads:
  assumes "a11yState p = a11yState_init" and "stored_snapshot e p = Some v"
    and "k \<noteq> ''keyboardShortcuts''" and "k \<noteq> ''__proto__''"
  shows "js_get (a11yState (loadA11ySettings e p)) k = merged_value v k"
  using load_own [OF assms]
  by (simp add: js_get_def merged_value_def split: option.splits)

lemma load_keyboardShortcuts:
  assumes "a11yState p = a11yState_init" and "stored_snapshot e p = Some v"
  shows "js_get (a11yState (loadA11ySettings e p)) ''keyboardShortcuts'' =
           (if merged_value v ''keyboardShortcuts'' = Undefined
               \<or> merged_value v ''keyboardShortcuts'' = Null
               \<or> reconcile_throws (merged_value v)
            then Bool True else merged_value v ''keyboardShortcuts'')"
proof -
  let ?m = "fst (Object_assign (a11yState_init, a11yState_prototype p) v)"
  have rt: "reconcile_throws (js_get ?m) = reconcile_throws (merged_value v)"
    by (rule reconcile_throws_cong) (simp_all add: merged_Object_assign)
  have ks: "js_get ?m ''keyboardShortcuts'' = merged_value v ''keyboardShortcuts''"
    by (simp add: merged_Object_assign)
  show ?thesis
    by (simp add: load_record(1) [OF assms refl refl] js_get_js_set rt ks)
qed

lemma load_prototype:
  assumes "a11yState p = a11yState_init" and "a11yState_prototype p = Object_prototype"
    and "stored_snapshot e p = Some v" and "distinct (map fst (own_properties v))"
  shows "map_of (a11yState (loadA11ySettings e p)) ''__proto__'' = None"
    and "a11yState_prototype (loadA11ySettings e p) =
           (case snapshot_value v ''__proto__'' of
              Some x \<Rightarrow> set_prototype x Object_prototype | None \<Rightarrow> Object_prototype)"
  using proto_Object_assign [OF assms(4) init_own(4)]
  by (simp_all add: load_record [OF assms(1,3) refl refl] assms(2) map_of_js_set)

text \<open>
  C3, as the code has it. The load starts from the record as the script initialises it, with
  \<open>Object.prototype\<close> as its prototype. Without a present and parseable snapshot it changes
  nothing. With one, every key other than \<open>keyboardShortcuts\<close> and \<open>__proto__\<close> is an own
  property with the snapshot's value when the snapshot has that key, whether the record declares
  the key or not, and is as in the initial record when it has not. A \<open>__proto__\<close> key (of a
  snapshot that has no key twice, as \<open>JSON.parse\<close> makes it) is never copied: an object, array
  or \<open>null\<close> under it becomes the prototype of the record, any other value is ignored.
  \<open>keyboardShortcuts\<close> reads as its merged value, except that it reads as \<open>true\<close> when the
  merged value is \<open>null\<close> or \<open>undefined\<close> or when the reconciliation pass throws. The result of
  \<open>loadA11ySettings\<close> is a page state in every case: the handler takes every throw.
\<close>

theorem load_merges_snapshot:
  assumes "a11yState p = a11yState_init" and "a11yState_prototype p = Object_prototype"
  shows "(stored_snapshot e p = None \<longrightarrow> loadA11ySettings e p = p)
   \<and> (\<forall>v k. stored_snapshot e p = Some v \<and> k \<noteq> ''keyboardShortcuts'' \<and> k \<noteq> ''__proto__'' \<longrightarrow>
         map_of (a11yState (loadA11ySettings e p)) k =
           (case snapshot_value v k of Some x \<Rightarrow> Some x | None \<Rightarrow> map_of a11yState_init k))
   \<and> (\<forall>v. stored_snapshot e p = Some v \<and> distinct (map fst (own_properties v)) \<longrightarrow>
         map_of (a11yState (loadA11ySettings e p)) ''__proto__'' = None
         \<and> a11yState_prototype (loadA11ySettings e p) =
             (case snapshot_value v ''__proto__'' of
                Some x \<Rightarrow> set_prototype x Object_prototype | None \<Rightarrow> Object_prototype))
   \<and> (\<forall>v. stored_snapshot e p = Some v \<longrightarrow>
         js_get (a11yState (loadA11ySettings e p)) ''keyboardShortcuts'' =
           (if merged_value v ''keyboardShortcuts'' = Undefined
               \<or> merged_value v ''keyboardShortcuts'' = Null
               \<or> reconcile_throws (merged_value v)
            then Bool True else merged_value v ''keyboardShortcuts''))"
proof (intro conjI allI impI)
  assume "stored_snapshot e p = None"
  then show "loadA11ySettings e p = p" using assms(1) by (rule load_unchanged)
next
  fix v k
  assume "stored_snapshot e p = Some v \<and> k \<noteq> ''keyboardShortcuts'' \<and> k \<noteq> ''__proto__''"
  then show "map_of (a11yState (loadA11ySettings e p)) k =
           (case snapshot_value v k of Some x \<Rightarrow> Some x | None \<Rightarrow> map_of a11yState_init k)"
    by (simp add: load_own [OF assms(1)])
next
  fix v
  assume a: "stored_snapshot e p = Some v \<and> distinct (map fst (own_properties v))"
  then show "map_of (a11yState (loadA11ySettings e p)) ''__proto__'' = None"
    by (simp add: load_prototype(1) [OF assms])
  from a show "a11yState_prototype (loadA11ySettings e p) =
             (case snapshot_value v ''__proto__'' of
                Some x \<Rightarrow> set_prototype x Object_prototype | None \<Rightarrow> Object_prototype)"
    by (simp add: load_prototype(2) [OF assms])
next
  fix v
  assume "stored_snapshot e p = Some v"
  then show "js_get (a11yState (loadA11ySettings e p)) ''keyboardShortcuts'' =
           (if merged_value v ''keyboardShortcuts'' = Undefined
               \<or> merged_value v ''keyboardShortcuts'' = Null
               \<or> reconcile_throws (merged_value v)
            then Bool True else merged_value v ''keyboardShortcuts'')"
    by (rule load_keyboardShortcuts [OF assms(1)])
qed

lemma stored_snapshot_sample:
  "stored_snapshot sample_env (stored_page (Obj [(''highContrast'', Bool True), (''textSize'', Num 150)]))
     = Some (Obj [(''highContrast'', Bool True), (''textSize'', Num 150)])"
  "stored_snapshot sample_env (stored_page (Obj [(''theme'', Str ''dark'')]))
     = Some (Obj [(''theme'', Str ''dark'')])"
  "stored_snapshot sample_env (stored_page (Obj [(''textSize'', Null)]))
     = Some (Obj [(''textSize'', Null)])"
  "stored_snapshot sample_env page_init = None"
  "stored_snapshot sample_env
     (stored_page (Obj [(''keyboardShortcuts'', Bool False), (''__proto__'', Null)]))
     = Some (Obj [(''keyboardShortcuts'', Bool False), (''__proto__'', Null)])"
  "stored_snapshot sample_env
     (stored_page (Obj [(''keyboardShortcuts'', Bool False), (''colorScheme'', Str ''high contrast'')]))
     = Some (Obj [(''keyboardShortcuts'', Bool False), (''colorScheme'', Str ''high contrast'')])"
  "stored_snapshot sample_env
     (page_init\<lparr>store := safeStorage_setItem ''a11ySettings'' ''{'' (store page_init)\<rparr>) = None"
  by code_simp+

lemma stored_page_record:
  "a11yState (stored_page v) = a11yState_init"
  "a11yState_prototype (stored_page v) = Object_prototype"
  "a11yState page_init = a11yState_init"
  "a11yState_prototype page_init = Object_prototype"
  by (simp_all add: stored_page_def page_init_def)

lemma sample_values:
  "snapshot_value (Obj [(''highContrast'', Bool True), (''textSize'', Num 150)]) ''textSize''
     = Some (Num 150)"
  "snapshot_value (Obj [(''highContrast'', Bool True), (''textSize'', Num 150)]) ''colorScheme''
     = None"
  "map_of a11yState_init ''colorScheme'' = Some (Str ''default'')"
  "snapshot_value (Obj [(''keyboardShortcuts'', Bool False), (''__proto__'', Null)]) ''__proto__''
     = Some Null"
  "merged_value (Obj [(''keyboardShortcuts'', Bool False), (''__proto__'', Null)])
     ''keyboardShortcuts'' = Bool False"
  "\<not> reconcile_throws (merged_value (Obj [(''keyboardShortcuts'', Bool False), (''__proto__'', Null)]))"
  "merged_value (Obj [(''keyboardShortcuts'', Bool False), (''colorScheme'', Str ''high contrast'')])
     ''keyboardShortcuts'' = Bool False"
  "reconcile_throws
     (merged_value (Obj [(''keyboardShortcuts'', Bool False), (''colorScheme'', Str ''high contrast'')]))"
  by code_simp+

theorem load_merges_snapshot_witness:
  "a11yState page_init = a11yState_init \<and> a11yState_prototype page_init = Object_prototype
   \<and> stored_snapshot sample_env page_init = None
   \<and> loadA11ySettings sample_env page_init = page_init
   \<and> stored_snapshot sample_env
        (page_init\<lparr>store := safeStorage_setItem ''a11ySettings'' ''{'' (store page_init)\<rparr>) = None
   \<and> loadA11ySettings sample_env
        (page_init\<lparr>store := safeStorage_setItem ''a11ySettings'' ''{'' (store page_init)\<rparr>)
       = page_init\<lparr>store := safeStorage_setItem ''a11ySettings'' ''{'' (store page_init)\<rparr>
   \<and> stored_snapshot sample_env
        (stored_page (Obj [(''highContrast'', Bool True), (''textSize'', Num 150)]))
       = Some (Obj [(''highContrast'', Bool True), (''textSize'', Num 150)])
   \<and> map_of (a11yState (loadA11ySettings sample_env
        (stored_page (Obj [(''highContrast'', Bool True), (''textSize'', Num 150)])))) ''textSize''
       = Some (Num 150)
   \<and> map_of (a11yState (loadA11ySettings sample_env
        (stored_page (Obj [(''highContrast'', Bool True), (''textSize'', Num 150)])))) ''colorScheme''
       = Some (Str ''default'')
   \<and> stored_snapshot sample_env
        (stored_page (Obj [(''keyboardShortcuts'', Bool False), (''__proto__'', Null)]))
       = Some (Obj [(''keyboardShortcuts'', Bool False), (''__proto__'', Null)])
   \<and> distinct (map fst (own_properties (Obj [(''keyboardShortcuts'', Bool False), (''__proto__'', Null)])))
   \<and> map_of (a11yState (loadA11ySettings sample_env
        (stored_page (Obj [(''keyboardShortcuts'', Bool False), (''__proto__'', Null)])))) ''__proto__''
       = None
   \<and> a11yState_prototype (loadA11ySettings sample_env
        (stored_page (Obj [(''keyboardShortcuts'', Bool False), (''__proto__'', Null)])))
       = Null_prototype
   \<and> js_get (a11yState (loadA11ySettings sample_env
        (stored_page (Obj [(''keyboardShortcuts'', Bool False), (''__proto__'', Null)]))))
        ''keyboardShortcuts'' = Bool False
   \<and> js_get (a11yState (loadA11ySettings sample_env
        (stored_page (Obj [(''keyboardShortcuts'', Bool False),
                           (''colorScheme'', Str ''high contrast'')]))))
        ''keyboardShortcuts'' = Bool True"
proof -
  have d: "distinct (map fst (own_properties (Obj [(''keyboardShortcuts'', Bool False), (''__proto__'', Null)])))"
    by simp
  have u: "a11yState (page_init\<lparr>store := safeStorage_setItem ''a11ySettings'' ''{'' (store page_init)\<rparr>)
             = a11yState_init"
    "a11yState_prototype (page_init\<lparr>store := safeStorage_setItem ''a11ySettings'' ''{'' (store page_init)\<rparr>)
             = Object_prototype"
    by (simp_all add: page_init_def)
  from load_merges_snapshot [OF stored_page_record(3,4), of sample_env]
    load_merges_snapshot [OF u, of sample_env]
    load_merges_snapshot [OF stored_page_record(1,2), of sample_env
      "Obj [(''highContrast'', Bool True), (''textSize'', Num 150)]"]
    load_merges_snapshot [OF stored_page_record(1,2), of sample_env
      "Obj [(''keyboardShortcuts'', Bool False), (''__proto__'', Null)]"]
    load_merges_snapshot [OF stored_page_record(1,2), of sample_env
      "Obj [(''keyboardShortcuts'', Bool False), (''colorScheme'', Str ''high contrast'')]"]
  show ?thesis
    by (simp add: stored_snapshot_sample stored_page_record sample_values d)
qed

text \<open>
  Where the claim fails: a key the record does not declare, present in the snapshot, is in the
  record after the load.
\<close>

theorem load_copies_unknown_key:
  "''theme'' \<notin> set declared_keys \<and> map_of a11yState_init ''theme'' = None
   \<and> map_of (a11yState (loadA11ySettings sample_env (stored_page (Obj [(''theme'', Str ''dark'')]))))
        ''theme'' = Some (Str ''dark'')"
proof -
  have "map_of (a11yState (loadA11ySettings sample_env (stored_page (Obj [(''theme'', Str ''dark'')]))))
        ''theme'' = Some (Str ''dark'')"
    by (simp add: load_own [OF stored_page_record(1) stored_snapshot_sample(2)] snapshot_value_def)
  then show ?thesis
    by (simp add: declared_keys_def a11yState_init_def)
qed

text \<open>
  C4, as the code has it. After a load from the initial record, with a snapshot whose
  properties \<open>JSON.parse\<close> produced, reading a declared key never yields \<open>undefined\<close>; it yields
  \<open>null\<close> only for a key other than \<open>keyboardShortcuts\<close> under which the snapshot itself holds
  \<open>null\<close>.
\<close>

theorem load_backfills_defaults:
  assumes "a11yState p = a11yState_init" and "k \<in> set declared_keys"
    and "\<forall>v. stored_snapshot e p = Some v \<longrightarrow> parsed_properties v"
  shows "js_get (a11yState (loadA11ySettings e p)) k \<noteq> Undefined
       \<and> (js_get (a11yState (loadA11ySettings e p)) k = Null \<longrightarrow>
            k \<noteq> ''keyboardShortcuts''
            \<and> (\<exists>v. stored_snapshot e p = Some v \<and> snapshot_value v k = Some Null))"
proof (cases "stored_snapshot e p")
  case None
  then have "a11yState (loadA11ySettings e p) = a11yState_init"
    using assms(1) by (simp add: load_unchanged)
  then show ?thesis
    using assms(2) by (auto simp: declared_keys_def js_get_def a11yState_init_def)
next
  case (Some v)
  with assms(3) have pv: "parsed_properties v" by simp
  have defined: "snapshot_value v k' = Some x \<Longrightarrow> x \<noteq> Undefined" for k' x
  proof -
    assume "snapshot_value v k' = Some x"
    then have "(k', x) \<in> set (own_properties v)"
      by (auto simp: snapshot_value_def dest: map_of_SomeD)
    with pv show ?thesis by (auto simp: parsed_properties_def list_all_iff)
  qed
  have init: "js_get a11yState_init k \<noteq> Undefined \<and> js_get a11yState_init k \<noteq> Null"
    using assms(2) by (auto simp: declared_keys_def js_get_def a11yState_init_def)
  from assms(2) have np: "k \<noteq> ''__proto__''" by (auto simp: declared_keys_def)
  show ?thesis
  proof (cases "k = ''keyboardShortcuts''")
    case True
    have "js_get (a11yState (loadA11ySettings e p)) ''keyboardShortcuts'' \<noteq> Undefined
        \<and> js_get (a11yState (loadA11ySettings e p)) ''keyboardShortcuts'' \<noteq> Null"
      by (simp add: load_keyboardShortcuts [OF assms(1) Some])
    then show ?thesis using True by simp
  next
    case False
    from load_reads [OF assms(1) Some False np] False init defined show ?thesis
      by (auto simp: Some merged_value_def split: option.splits)
  qed
qed

theorem load_backfills_defaults_witness:
  "a11yState (stored_page (Obj [(''highContrast'', Bool True), (''textSize'', Num 150)]))
     = a11yState_init
   \<and> ''textSize'' \<in> set declared_keys
   \<and> stored_snapshot sample_env
        (stored_page (Obj [(''highContrast'', Bool True), (''textSize'', Num 150)]))
       = Some (Obj [(''highContrast'', Bool True), (''textSize'', Num 150)])
   \<and> parsed_properties (Obj [(''highContrast'', Bool True), (''textSize'', Num 150)])
   \<and> js_get (a11yState (loadA11ySettings sample_env
        (stored_page (Obj [(''highContrast'', Bool True), (''textSize'', Num 150)])))) ''textSize''
       \<noteq> Undefined"
proof -
  have h1: "a11yState (stored_page (Obj [(''highContrast'', Bool True), (''textSize'', Num 150)]))
     = a11yState_init"
    by (simp add: stored_page_def page_init_def)
  have h2: "''textSize'' \<in> set declared_keys" by (simp add: declared_keys_def)
  have h4: "parsed_properties (Obj [(''highContrast'', Bool True), (''textSize'', Num 150)])"
    by (simp add: parsed_properties_def)
  have h3: "\<forall>v. stored_snapshot sample_env
        (stored_page (Obj [(''highContrast'', Bool True), (''textSize'', Num 150)])) = Some v
       \<longrightarrow> parsed_properties v"
    using h4 by (simp add: stored_snapshot_sample)
  from load_backfills_defaults [OF h1 h2 h3] h1 h2 h4 show ?thesis
    by (simp add: stored_snapshot_sample)
qed

text \<open>Where the claim fails: a snapshot with \<open>null\<close> under \<open>textSize\<close> leaves \<open>null\<close> there.\<close>

theorem load_keeps_null:
  "''textSize'' \<in> set declared_keys
   \<and> js_get (a11yState (loadA11ySettings sample_env (stored_page (Obj [(''textSize'', Null)]))))
        ''textSize'' = Null"
  by (simp add: load_reads [OF stored_page_record(1) stored_snapshot_sample(3)] merged_value_def
      snapshot_value_def declared_keys_def)
section \<open>Properties of simplified language\<close>

lemma content_toggleSimpleLanguage:
  "content (toggleSimpleLanguage e v p) =
     (if js_truthy v then map applySimpleLanguage_node (content p)
      else map removeSimpleLanguage_node (content p))"
  by (simp add: toggleSimpleLanguage_def Let_def applySimpleLanguage_def removeSimpleLanguage_def
      set_state_def saveA11ySettings_def announce_def announceToScreenReader_def
      ensureLiveRegion_def setTimeout_def split: option.splits)

lemma getAttribute_setAttribute:
  "getAttribute name (setAttribute name val attrs) = Some val"
  by (simp add: getAttribute_def setAttribute_def update_conv')

lemma textContent_text_children: "concat (map textContent (text_children s)) = s"
  by (simp add: text_children_def)

lemma dictionary_text_Nil: "dictionary_text [] = None"
  by (simp add: dictionary_text_def simpleLanguageMap_def Object_prototype_methods_def)

text \<open>
  A childless element whose text is a dictionary key as it stands, with no white space around
  it, has its text back after enabling and disabling.
\<close>

lemma round_trip_exact_text:
  assumes "filter is_element kids = []" and "concat (map textContent kids) = t"
    and "trim t = t" and "dictionary_text t = Some simple"
  shows "textContent (removeSimpleLanguage_node (applySimpleLanguage_node (Element tag attrs kids))) = t"
proof -
  from assms(4) have "t \<noteq> []" by (auto simp: dictionary_text_Nil)
  with assms show ?thesis
    by (simp add: getAttribute_setAttribute textContent_text_children)
qed

text \<open>
  A text that names a member of \<open>Object.prototype\<close> is no dictionary key, yet enabling
  rewrites it.
\<close>

lemma inherited_name_is_rewritten:
  "map_of simpleLanguageMap ''toString'' = None
   \<and> applySimpleLanguage_node (Element ''code'' [] [TextNode ''toString'']) =
       Element ''code'' [(''data-original-text'', ''toString'')]
         [TextNode ''function toString() { [native code] }'']"
  by code_simp

text \<open>
  C2. The claim is that enabling and then disabling restores the exact original string of every
  childless element whose trimmed text is a dictionary key. The code records the trimmed text in
  \<open>data-original-text\<close>, not the text it replaces: a button whose text is \<open>Submit\<close> with two
  spaces on either side (trimmed, the key \<open>Submit\<close>) reads \<open>Send\<close> while the feature is on and
  \<open>Submit\<close> without the spaces after it is turned off.
\<close>

theorem simple_language_round_trip_trims:
  "trim ''  Submit  '' = ''Submit'' \<and> map_of simpleLanguageMap ''Submit'' = Some ''Send''
   \<and> content (toggleSimpleLanguage e (Bool True)
         (p\<lparr>content := [Element ''button'' [] [TextNode ''  Submit  '']]\<rparr>))
       = [Element ''button'' [(''data-original-text'', ''Submit'')] [TextNode ''Send'']]
   \<and> content (toggleSimpleLanguage e (Bool False) (toggleSimpleLanguage e (Bool True)
         (p\<lparr>content := [Element ''button'' [] [TextNode ''  Submit  '']]\<rparr>)))
       = [Element ''button'' [] [TextNode ''Submit'']]"
proof -
  have a: "applySimpleLanguage_node (Element ''button'' [] [TextNode ''  Submit  ''])
      = Element ''button'' [(''data-original-text'', ''Submit'')] [TextNode ''Send'']"
    by code_simp
  have r: "removeSimpleLanguage_node
        (Element ''button'' [(''data-original-text'', ''Submit'')] [TextNode ''Send''])
      = Element ''button'' [] [TextNode ''Submit'']"
    by code_simp
  have t: "trim ''  Submit  '' = ''Submit''" "map_of simpleLanguageMap ''Submit'' = Some ''Send''"
    by code_simp+
  show ?thesis
    by (simp add: content_toggleSimpleLanguage a r t
        del: applySimpleLanguage_node.simps removeSimpleLanguage_node.simps)
qed

section \<open>Class strings, tokens and the stripping expression\<close>

lemma ws_not_word: "ascii_whitespace c \<Longrightarrow> \<not> word_char c"
  by (auto simp: ascii_whitespace_def word_char_def Let_def)

lemma takeWhile_sep: "\<not> P c \<Longrightarrow> takeWhile P (xs @ c # ys) = takeWhile P xs"
  by (induction xs) auto

lemma dropWhile_sep: "\<not> P c \<Longrightarrow> dropWhile P (xs @ c # ys) = dropWhile P xs @ c # ys"
  by (induction xs) auto

lemma prefix_sep: "c \<notin> set pre \<Longrightarrow> prefix pre (a @ c # b) = prefix pre a"
proof
  assume c: "c \<notin> set pre" and p: "prefix pre (a @ c # b)"
  from p consider "prefix pre a" | us where "pre = a @ us" "prefix us (c # b)"
    by (auto simp: prefix_append)
  then show "prefix pre a"
  proof cases
    case 1
    then show ?thesis .
  next
    case 2
    with c have "us = []" by (cases us) auto
    with 2 show ?thesis by simp
  qed
next
  assume "prefix pre a"
  then show "prefix pre (a @ c # b)" by (rule prefix_prefix)
qed

lemma match_marker_sep_head:
  "\<not> word_char c \<Longrightarrow> c \<notin> set pre \<Longrightarrow> match_marker pre (c # r) = None"
  by (cases pre) (auto simp: match_marker_def)

lemma match_marker_append_sep:
  assumes "\<not> word_char c" and "c \<notin> set pre"
  shows "match_marker pre (a @ c # b) = map_option (\<lambda>r. r @ c # b) (match_marker pre a)"
proof (cases "prefix pre a")
  case True
  then have "length pre \<le> length a" by (rule prefix_length_le)
  then have "drop (length pre) (a @ c # b) = drop (length pre) a @ c # b" by simp
  with True assms show ?thesis
    by (simp add: match_marker_def prefix_sep takeWhile_sep dropWhile_sep)
next
  case False
  with assms show ?thesis by (simp add: match_marker_def prefix_sep)
qed

lemma strip_marker_append_sep:
  "\<not> word_char c \<Longrightarrow> c \<notin> set pre \<Longrightarrow>
     strip_marker pre (a @ c # b) = strip_marker pre a @ c # strip_marker pre b"
proof (induction pre a rule: strip_marker.induct)
  case (1 pre)
  then show ?case by (simp add: match_marker_sep_head)
next
  case (2 pre x xs)
  have m: "match_marker pre (x # xs @ c # b) =
      map_option (\<lambda>r. r @ c # b) (match_marker pre (x # xs))"
    using match_marker_append_sep [OF "2.prems", of "x # xs" b] by simp
  show ?case
  proof (cases "match_marker pre (x # xs)")
    case None
    with 2 m show ?thesis by simp
  next
    case (Some rest)
    with 2 m show ?thesis by simp
  qed
qed

lemma strip_marker_id: "\<not> has_match pre s \<Longrightarrow> strip_marker pre s = s"
  by (induction s) auto

lemma marker_token_match: "marker_token pre t \<Longrightarrow> match_marker pre t = Some []"
proof -
  assume m: "marker_token pre t"
  let ?d = "drop (length pre) t"
  from m have p: "prefix pre t" and d: "?d \<noteq> []" and w: "\<forall>x \<in> set ?d. word_char x"
    by (simp_all add: marker_token_def list_all_iff)
  from w have tw: "takeWhile word_char ?d = ?d" and dw: "dropWhile word_char ?d = []"
    by (simp_all add: takeWhile_eq_all_conv)
  show ?thesis
    unfolding match_marker_def tw dw using p d by simp
qed

lemma marker_token_nonempty: "marker_token pre t \<Longrightarrow> t \<noteq> []"
  by (auto simp: marker_token_def)

lemma strip_marker_marker: "marker_token pre t \<Longrightarrow> strip_marker pre t = []"
  using marker_token_match [of pre t] marker_token_nonempty [of pre t]
  by (cases t) simp_all

lemma marker_has_match: "marker_token pre t \<Longrightarrow> has_match pre t"
  using marker_token_match [of pre t] marker_token_nonempty [of pre t]
  by (cases t) simp_all

lemma class_tokens_valid: "t \<in> set (class_tokens s) \<Longrightarrow> valid_token t"
proof (induction s rule: class_tokens.induct)
  case 1
  then show ?case by simp
next
  case (2 c cs)
  show ?case
  proof (cases "ascii_whitespace c")
    case True
    with 2 show ?thesis by simp
  next
    case False
    with "2.prems" consider "t = c # takeWhile (\<lambda>x. \<not> ascii_whitespace x) cs"
      | "t \<in> set (class_tokens (dropWhile (\<lambda>x. \<not> ascii_whitespace x) cs))"
      by auto
    then show ?thesis
    proof cases
      case 1
      have "\<forall>x \<in> set (takeWhile (\<lambda>x. \<not> ascii_whitespace x) cs). \<not> ascii_whitespace x"
        by (auto dest: set_takeWhileD)
      with 1 False show ?thesis by (simp add: valid_token_def)
    next
      case 2
      with False "2.IH"(2) show ?thesis by simp
    qed
  qed
qed

lemma class_tokens_append_token:
  assumes "valid_token t" and "u = [] \<or> ascii_whitespace (hd u)"
  shows "class_tokens (t @ u) = t # class_tokens u"
proof -
  from assms(1) obtain c cs where t: "t = c # cs" and c: "\<not> ascii_whitespace c"
    and cs: "\<forall>x \<in> set cs. \<not> ascii_whitespace x"
    by (cases t) (auto simp: valid_token_def)
  from assms(2) have u: "takeWhile (\<lambda>x. \<not> ascii_whitespace x) u = []"
    "dropWhile (\<lambda>x. \<not> ascii_whitespace x) u = u"
    by (cases u; auto)+
  from cs have "takeWhile (\<lambda>x. \<not> ascii_whitespace x) (cs @ u) = cs"
    "dropWhile (\<lambda>x. \<not> ascii_whitespace x) (cs @ u) = u"
    by (simp_all add: takeWhile_append2 dropWhile_append2 u)
  with c show ?thesis by (simp add: t)
qed

lemma class_tokens_join:
  "list_all valid_token ts \<Longrightarrow> class_tokens (join '' '' ts) = ts"
proof (induction "'' ''" ts rule: join.induct)
  case 1
  then show ?case by simp
next
  case (2 t)
  then show ?case using class_tokens_append_token [of t "[]"] by simp
next
  case (3 t u ts)
  have "class_tokens (t @ CHR '' '' # join '' '' (u # ts)) =
        t # class_tokens (CHR '' '' # join '' '' (u # ts))"
    using 3 by (intro class_tokens_append_token) (simp_all add: ascii_whitespace_def)
  also have "\<dots> = t # class_tokens (join '' '' (u # ts))"
    by (simp add: ascii_whitespace_def)
  finally show ?case using 3 by simp
qed

lemma ordered_set_distinct: "distinct xs \<Longrightarrow> ordered_set xs = xs"
  by (simp add: ordered_set_def distinct_remdups_id)

lemma set_ordered_set: "set (ordered_set xs) = set xs"
  by (simp add: ordered_set_def)

lemma distinct_ordered_set: "distinct (ordered_set xs)"
  by (simp add: ordered_set_def)


lemma token_set_valid: "list_all valid_token (token_set s)"
  by (auto simp: token_set_def list_all_iff set_ordered_set class_tokens_valid)

lemma distinct_token_set: "distinct (token_set s)"
  by (simp add: token_set_def distinct_ordered_set)

lemma first_token_split:
  fixes pre cs :: string and c :: char
  assumes sep: "\<forall>c \<in> set pre. \<not> ascii_whitespace c" and c: "\<not> ascii_whitespace c"
  defines "t \<equiv> c # takeWhile (\<lambda>x. \<not> ascii_whitespace x) cs"
    and "rest \<equiv> dropWhile (\<lambda>x. \<not> ascii_whitespace x) cs"
  shows "c # cs = t @ rest"
    and "class_tokens (c # cs) = t # class_tokens rest"
    and "valid_token t"
    and "strip_marker pre (c # cs) = strip_marker pre t @ strip_marker pre rest"
    and "strip_marker pre rest = [] \<or> ascii_whitespace (hd (strip_marker pre rest))"
proof -
  show split: "c # cs = t @ rest" by (simp add: t_def rest_def)
  show toks: "class_tokens (c # cs) = t # class_tokens rest" using c by (simp add: t_def rest_def)
  show "valid_token t"
    using class_tokens_valid [of t "c # cs"] by (simp only: toks list.set_intros)
  have "rest \<noteq> [] \<Longrightarrow> ascii_whitespace (hd rest)"
    using hd_dropWhile [of "\<lambda>x. \<not> ascii_whitespace x" cs] by (simp add: rest_def)
  then have rest: "rest = [] \<or> (\<exists>w r. rest = w # r \<and> ascii_whitespace w)"
    by (cases rest) auto
  from rest have "strip_marker pre (t @ rest) = strip_marker pre t @ strip_marker pre rest"
  proof
    assume r: "rest = []"
    show ?thesis unfolding r by (simp only: append_Nil2 strip_marker.simps)
  next
    assume "\<exists>w r. rest = w # r \<and> ascii_whitespace w"
    then obtain w r where wr: "rest = w # r" and w: "ascii_whitespace w" by blast
    from w sep have nw: "\<not> word_char w" "w \<notin> set pre" by (auto simp: ws_not_word)
    have a: "strip_marker pre (t @ w # r) = strip_marker pre t @ w # strip_marker pre r"
      using nw by (rule strip_marker_append_sep)
    have b: "strip_marker pre (w # r) = w # strip_marker pre r"
      using match_marker_sep_head [OF nw] by simp
    show ?thesis unfolding wr by (simp only: a b)
  qed
  then show "strip_marker pre (c # cs) = strip_marker pre t @ strip_marker pre rest"
    by (simp only: split)
  from rest show "strip_marker pre rest = [] \<or> ascii_whitespace (hd (strip_marker pre rest))"
  proof
    assume r: "rest = []"
    show ?thesis unfolding r by simp
  next
    assume "\<exists>w r. rest = w # r \<and> ascii_whitespace w"
    then obtain w r where wr: "rest = w # r" and w: "ascii_whitespace w" by blast
    from w sep have "match_marker pre (w # r) = None"
      by (intro match_marker_sep_head) (auto simp: ws_not_word)
    with w show ?thesis unfolding wr by simp
  qed
qed

lemma strip_marker_ws:
  assumes "\<forall>c \<in> set pre. \<not> ascii_whitespace c" and "ascii_whitespace c"
  shows "strip_marker pre (c # cs) = c # strip_marker pre cs"
proof -
  from assms have "match_marker pre (c # cs) = None"
    by (intro match_marker_sep_head) (auto simp: ws_not_word)
  then show ?thesis by simp
qed

lemma strip_tokenwise:
  assumes sep: "\<forall>c \<in> set pre. \<not> ascii_whitespace c"
  shows "tidy_tokens pre x \<Longrightarrow>
     class_tokens (strip_marker pre x) = filter (\<lambda>t. \<not> marker_token pre t) (class_tokens x)"
proof (induction x rule: class_tokens.induct)
  case 1
  then show ?case by simp
next
  case (2 c cs)
  show ?case
  proof (cases "ascii_whitespace c")
    case True
    moreover from True "2.prems" have "tidy_tokens pre cs" by (simp add: tidy_tokens_def)
    moreover from True have "strip_marker pre (c # cs) = c # strip_marker pre cs"
      by (rule strip_marker_ws [OF sep])
    ultimately show ?thesis using "2.IH"(1) by (simp del: strip_marker.simps)
  next
    case False
    let ?t = "c # takeWhile (\<lambda>x. \<not> ascii_whitespace x) cs"
    let ?rest = "dropWhile (\<lambda>x. \<not> ascii_whitespace x) cs"
    note ft = first_token_split [OF sep False, of cs]
    from "2.prems" have t: "marker_token pre ?t \<or> \<not> has_match pre ?t"
      and tidy: "tidy_tokens pre ?rest"
      unfolding tidy_tokens_def ft(2) by simp_all
    from False tidy "2.IH"(2)
    have IH: "class_tokens (strip_marker pre ?rest) =
                filter (\<lambda>t. \<not> marker_token pre t) (class_tokens ?rest)"
      by simp
    have "class_tokens (strip_marker pre (c # cs)) =
            filter (\<lambda>t. \<not> marker_token pre t) (?t # class_tokens ?rest)"
    proof (cases "marker_token pre ?t")
      case True
      then show ?thesis
        by (simp only: ft(4) strip_marker_marker IH filter.simps append_Nil if_False simp_thms)
    next
      case nm: False
      with t have "\<not> has_match pre ?t" by simp
      then have "strip_marker pre ?t = ?t" by (rule strip_marker_id)
      then have "class_tokens (strip_marker pre (c # cs)) =
          ?t # class_tokens (strip_marker pre ?rest)"
        using class_tokens_append_token [OF ft(3) ft(5)] by (simp only: ft(4))
      with nm IH show ?thesis by (simp only: filter.simps if_True simp_thms)
    qed
    then show ?thesis by (simp only: ft(2))
  qed
qed

lemma strip_marker_clean_tokens:
  assumes sep: "\<forall>c \<in> set pre. \<not> ascii_whitespace c"
  shows "\<forall>t \<in> set (class_tokens x). \<not> has_match pre t \<Longrightarrow> strip_marker pre x = x"
proof (induction x rule: class_tokens.induct)
  case 1
  then show ?case by simp
next
  case (2 c cs)
  show ?case
  proof (cases "ascii_whitespace c")
    case True
    then have "strip_marker pre (c # cs) = c # strip_marker pre cs"
      by (rule strip_marker_ws [OF sep])
    with True 2 show ?thesis by (simp del: strip_marker.simps)
  next
    case False
    let ?t = "c # takeWhile (\<lambda>x. \<not> ascii_whitespace x) cs"
    let ?rest = "dropWhile (\<lambda>x. \<not> ascii_whitespace x) cs"
    note ft = first_token_split [OF sep False, of cs]
    from "2.prems" have t: "\<not> has_match pre ?t"
      and r: "\<forall>t \<in> set (class_tokens ?rest). \<not> has_match pre t"
      unfolding ft(2) by simp_all
    from t have "strip_marker pre ?t = ?t" by (rule strip_marker_id)
    moreover from False r "2.IH"(2) have "strip_marker pre ?rest = ?rest" by simp
    ultimately have "strip_marker pre (c # cs) = ?t @ ?rest" by (simp only: ft(4))
    then show ?thesis by (simp only: ft(1) [symmetric])
  qed
qed





lemma sep_color: "\<forall>c \<in> set ''color-''. \<not> ascii_whitespace c"
  by (simp add: ascii_whitespace_def)

lemma scheme_token:
  "v \<in> set color_schemes \<Longrightarrow> v \<noteq> Str ''default'' \<Longrightarrow>
     marker_token ''color-'' (''color-'' @ js_toString v) \<and> valid_token (''color-'' @ js_toString v)"
  by (auto simp: color_schemes_def marker_token_def valid_token_def word_char_def
      ascii_whitespace_def)

lemma clean_token_set:
  assumes "strips_clean c"
  shows "\<forall>t \<in> set (token_set (strip_marker ''color-'' c)). \<not> has_match ''color-'' t"
  using assms by (simp add: strips_clean_def token_set_def set_ordered_set list_all_iff)

lemma clean_strip_again:
  assumes "strips_clean c"
  shows "strip_marker ''color-'' (strip_marker ''color-'' c) = strip_marker ''color-'' c"
  using assms
  by (intro strip_marker_clean_tokens [OF sep_color]) (simp add: strips_clean_def list_all_iff)

lemma clean_after_default: "strips_clean c \<Longrightarrow> strips_clean (strip_marker ''color-'' c)"
  by (simp add: strips_clean_def [of "strip_marker ''color-'' c"] clean_strip_again)
     (simp add: strips_clean_def)

lemma markers_after_default: "strips_clean c \<Longrightarrow> scheme_markers (strip_marker ''color-'' c) = []"
  using clean_token_set [of c] marker_has_match [of "''color-''"]
  by (auto simp: scheme_markers_def filter_empty_conv)

lemma clean_add_marker:
  assumes c: "strips_clean c" and m: "marker_token ''color-'' m" and v: "valid_token m"
  shows "add_token m (strip_marker ''color-'' c) =
           serialize_tokens (token_set (strip_marker ''color-'' c) @ [m])"
    and "class_tokens (add_token m (strip_marker ''color-'' c)) =
           token_set (strip_marker ''color-'' c) @ [m]"
    and "class_tokens (strip_marker ''color-'' (add_token m (strip_marker ''color-'' c))) =
           token_set (strip_marker ''color-'' c)"
proof -
  let ?T = "token_set (strip_marker ''color-'' c)"
  have free: "\<forall>t \<in> set ?T. \<not> has_match ''color-'' t" using c by (rule clean_token_set)
  with marker_has_match [OF m] have notin: "m \<notin> set ?T" by auto
  then show a: "add_token m (strip_marker ''color-'' c) = serialize_tokens (?T @ [m])"
    by (simp add: add_token_def)
  have valid: "list_all valid_token (?T @ [m])"
    using token_set_valid [of "strip_marker ''color-'' c"] v by simp
  then show toks: "class_tokens (add_token m (strip_marker ''color-'' c)) = ?T @ [m]"
    by (simp only: a serialize_tokens_def class_tokens_join)
  have "tidy_tokens ''color-'' (add_token m (strip_marker ''color-'' c))"
    using free m by (auto simp: tidy_tokens_def toks)
  from strip_tokenwise [OF sep_color this]
  have "class_tokens (strip_marker ''color-'' (add_token m (strip_marker ''color-'' c))) =
      filter (\<lambda>t. \<not> marker_token ''color-'' t) (?T @ [m])"
    by (simp only: toks)
  also have "\<dots> = ?T"
    using free m marker_has_match [of "''color-''"] by (auto simp: filter_id_conv)
  finally show "class_tokens (strip_marker ''color-'' (add_token m (strip_marker ''color-'' c))) = ?T" .
qed

lemma clean_after_marker:
  assumes "strips_clean c" and "marker_token ''color-'' m" and "valid_token m"
  shows "strips_clean (add_token m (strip_marker ''color-'' c))"
  using clean_token_set [OF assms(1)]
  by (simp add: strips_clean_def [of "add_token m (strip_marker ''color-'' c)"]
      clean_add_marker(3) [OF assms] list_all_iff)

lemma markers_after_marker:
  assumes "strips_clean c" and "marker_token ''color-'' m" and "valid_token m"
  shows "scheme_markers (add_token m (strip_marker ''color-'' c)) = [m]"
proof -
  let ?T = "token_set (strip_marker ''color-'' c)"
  have free: "\<forall>t \<in> set ?T. \<not> has_match ''color-'' t" using assms(1) by (rule clean_token_set)
  with marker_has_match [OF assms(2)] have notin: "m \<notin> set ?T" by auto
  then have "distinct (?T @ [m])" using distinct_token_set [of "strip_marker ''color-'' c"] by simp
  then have "token_set (add_token m (strip_marker ''color-'' c)) = ?T @ [m]"
    by (simp add: token_set_def [of "add_token m (strip_marker ''color-'' c)"]
        clean_add_marker(2) [OF assms] ordered_set_distinct)
  moreover have "filter (marker_token ''color-'') ?T = []"
    using free marker_has_match [of "''color-''"] by (auto simp: filter_empty_conv)
  ultimately show ?thesis using assms(2) by (simp add: scheme_markers_def)
qed


section \<open>Properties of the applicators\<close>




lemma announce_normal:
  "announce m p =
     p\<lparr>liveRegion :=
          Some ((case liveRegion p of
                   Some lr \<Rightarrow> lr
                 | None \<Rightarrow> \<lparr>aria_live = ''assertive'', lr_text = [], lr_original = None\<rparr>)
                \<lparr>aria_live := ''polite'', lr_text := m\<rparr>),
       body_appended :=
          (if liveRegion p = None then body_appended p @ [''sr-only''] else body_appended p),
       timers := timers p @ [(clock p + 1000, ClearLiveRegion)]\<rparr>"
  by (simp add: announce_def announceToScreenReader_def ensureLiveRegion_def setTimeout_def Let_def
      split: option.splits)


lemma save_normal:
  "saveA11ySettings e p =
     p\<lparr>store := safeStorage_setItem ''a11ySettings'' (JSON_stringify e (a11yState p)) (store p)\<rparr>"
  by (simp add: saveA11ySettings_def)











lemma classList_add_valid: "valid_token tok \<Longrightarrow> classList_add tok cls = Inr (add_token tok cls)"
  by (auto simp: classList_add_def valid_token_def list_ex_iff)

lemma setColorScheme_normal:
  assumes "v \<in> set color_schemes"
  shows "setColorScheme e v p =
     Completed
      (p\<lparr>a11yState := js_set ''colorScheme'' v (a11yState p),
         body_class := (if v = Str ''default'' then strip_marker ''color-'' (body_class p)
                        else add_token (''color-'' @ js_toString v)
                               (strip_marker ''color-'' (body_class p))),
         store := safeStorage_setItem ''a11ySettings''
                    (JSON_stringify e (js_set ''colorScheme'' v (a11yState p))) (store p),
         liveRegion :=
            Some ((case liveRegion p of
                     Some lr \<Rightarrow> lr
                   | None \<Rightarrow> \<lparr>aria_live = ''assertive'', lr_text = [], lr_original = None\<rparr>)
                  \<lparr>aria_live := ''polite'',
                    lr_text := ''Color scheme changed to '' @ js_toString v\<rparr>),
         body_appended :=
            (if liveRegion p = None then body_appended p @ [''sr-only''] else body_appended p),
         timers := timers p @ [(clock p + 1000, ClearLiveRegion)]\<rparr>)"
proof (cases "v = Str ''default''")
  case True
  show ?thesis
    unfolding setColorScheme_def Let_def
    apply (simp only: set_state_def save_normal True)
    apply (simp only: announce_normal)
    apply simp
    done
next
  case False
  from scheme_token [OF assms False] have "valid_token (''color-'' @ js_toString v)"
    by (rule conjunct2)
  then have "classList_add (''color-'' @ js_toString v) cls =
      Inr (add_token (''color-'' @ js_toString v) cls)" for cls
    by (rule classList_add_valid)
  moreover from assms have "ToString v = Inr (js_toString v)"
    by (auto simp: color_schemes_def ToString_def)
  ultimately have "add_marker ''color-'' v cls =
      Inr (add_token (''color-'' @ js_toString v) cls)" for cls
    by (simp add: add_marker_def)
  then show ?thesis
    unfolding setColorScheme_def Let_def
    apply (simp only: set_state_def save_normal False if_True if_False simp_thms sum.case)
    apply (simp only: announce_normal)
    apply simp
    done
qed

lemma body_class_setColorScheme:
  assumes "v \<in> set color_schemes"
  shows "body_class (final_page (setColorScheme e v p)) =
           (if v = Str ''default'' then strip_marker ''color-'' (body_class p)
            else add_token (''color-'' @ js_toString v) (strip_marker ''color-'' (body_class p)))"
  by (simp add: setColorScheme_normal [OF assms])

lemma clean_setColorScheme:
  assumes "v \<in> set color_schemes" and "strips_clean (body_class p)"
  shows "strips_clean (body_class (final_page (setColorScheme e v p)))"
  using assms scheme_token [of v]
  by (simp add: body_class_setColorScheme clean_after_default clean_after_marker)

lemma markers_setColorScheme:
  assumes "v \<in> set color_schemes" and "strips_clean (body_class p)"
  shows "scheme_markers (body_class (final_page (setColorScheme e v p))) =
           (if v = Str ''default'' then [] else [''color-'' @ js_toString v])"
  using assms scheme_token [of v]
  by (simp add: body_class_setColorScheme markers_after_default markers_after_marker)


text \<open>
  C5, as the code has it. On a page whose root class string strips clean, applying scheme \<open>A\<close>
  and then scheme \<open>B\<close> completes and leaves exactly one scheme marker, that of \<open>B\<close>, when \<open>B\<close> is
  not \<open>default\<close>; for \<open>default\<close> no marker is added, and none is left.
\<close>

theorem color_scheme_exclusive:
  assumes "strips_clean (body_class p)" and "A \<in> set color_schemes" and "B \<in> set color_schemes"
  shows "(\<exists>q. and_then (setColorScheme e A p) (setColorScheme e B) = Completed q)
       \<and> scheme_markers (body_class (final_page (and_then (setColorScheme e A p) (setColorScheme e B))))
           = (if B = Str ''default'' then [] else [''color-'' @ js_toString B])"
proof -
  obtain q where q: "setColorScheme e A p = Completed q"
    using setColorScheme_normal [OF assms(2)] by blast
  then have "q = final_page (setColorScheme e A p)" by simp
  with clean_setColorScheme [OF assms(2,1)] have "strips_clean (body_class q)" by simp
  from markers_setColorScheme [OF assms(3) this, of e]
  have m: "scheme_markers (body_class (final_page (setColorScheme e B q))) =
      (if B = Str ''default'' then [] else [''color-'' @ js_toString B])" .
  obtain q' where "setColorScheme e B q = Completed q'"
    using setColorScheme_normal [OF assms(3)] by blast
  with m show ?thesis by (simp only: q and_then.simps) blast
qed

theorem color_scheme_exclusive_witness:
  "strips_clean (body_class (page_init\<lparr>body_class := ''home color-monochrome''\<rparr>))
   \<and> Str ''protanopia'' \<in> set color_schemes \<and> Str ''tritanopia'' \<in> set color_schemes
   \<and> scheme_markers (body_class (final_page (and_then
         (setColorScheme sample_env (Str ''protanopia'')
            (page_init\<lparr>body_class := ''home color-monochrome''\<rparr>))
         (setColorScheme sample_env (Str ''tritanopia''))))) = [''color-tritanopia'']"
proof -
  have h: "strips_clean (body_class (page_init\<lparr>body_class := ''home color-monochrome''\<rparr>))"
    by code_simp
  have s: "Str ''protanopia'' \<in> set color_schemes" "Str ''tritanopia'' \<in> set color_schemes"
    by (simp_all add: color_schemes_def)
  from color_scheme_exclusive [OF h s, of sample_env] h s show ?thesis by simp
qed

text \<open>
  Where the claim fails: after \<open>protanopia\<close> and then \<open>default\<close> the root carries no scheme
  marker at all. (And on a root class string that does not strip clean, two markers can stand
  side by side after two schemes were applied.)
\<close>

theorem color_scheme_default_has_no_marker:
  "scheme_markers (body_class (final_page (and_then
        (setColorScheme sample_env (Str ''protanopia'') page_init)
        (setColorScheme sample_env (Str ''default''))))) = []
   \<and> scheme_markers (body_class (final_page (and_then
        (setColorScheme sample_env (Str ''protanopia'')
           (page_init\<lparr>body_class := ''colorcolorcolor-x-y-monochrome''\<rparr>))
        (setColorScheme sample_env (Str ''deuteranopia''))))) =
       [''color-monochrome'', ''color-deuteranopia'']"
proof -
  have s: "Str ''protanopia'' \<in> set color_schemes" "Str ''default'' \<in> set color_schemes"
    "Str ''deuteranopia'' \<in> set color_schemes"
    by (simp_all add: color_schemes_def)
  have a: "scheme_markers (strip_marker ''color-'' (add_token ''color-protanopia'' (strip_marker ''color-'' []))) = []"
    "scheme_markers (add_token ''color-deuteranopia'' (strip_marker ''color-''
        (add_token ''color-protanopia'' (strip_marker ''color-'' ''colorcolorcolor-x-y-monochrome''))))
      = [''color-monochrome'', ''color-deuteranopia'']"
    by code_simp+
  show ?thesis
    using a by (simp add: setColorScheme_normal [OF s(1)] setColorScheme_normal [OF s(2)]
        setColorScheme_normal [OF s(3)] page_init_def)
qed





lemma is_element_apply [simp]: "is_element (applySimpleLanguage_node n) = is_element n"
  by (cases n) (auto split: option.splits)





























text \<open>
  A scheme outside the five of the settings record is another matter: the marker of \<open>a-b\<close> is
  not a run of word characters, the stripping expression takes only \<open>color-a\<close> away, and a
  second call leaves \<open>-b\<close> behind.
\<close>

lemma body_class_setColorScheme_any:
  assumes "v \<noteq> Str ''default''"
  shows "body_class (final_page (setColorScheme e v p)) =
           (case add_marker ''color-'' v (strip_marker ''color-'' (body_class p)) of
              Inl err \<Rightarrow> strip_marker ''color-'' (body_class p)
            | Inr cls \<Rightarrow> cls)"
  using assms
  by (simp add: setColorScheme_def Let_def set_state_def save_normal announce_normal
      split: sum.splits)

lemma scheme_outside_domain:
  "Str ''a-b'' \<notin> set color_schemes
   \<and> body_class (final_page (setColorScheme e (Str ''a-b'') (page_init\<lparr>body_class := []\<rparr>)))
       = ''color-a-b''
   \<and> body_class (final_page (and_then
        (setColorScheme e (Str ''a-b'') (page_init\<lparr>body_class := []\<rparr>))
        (setColorScheme e (Str ''a-b'')))) = ''-b color-a-b''"
proof -
  have a: "add_marker ''color-'' (Str ''a-b'') (strip_marker ''color-'' []) = Inr ''color-a-b''"
    "add_marker ''color-'' (Str ''a-b'') (strip_marker ''color-'' ''color-a-b'') = Inr ''-b color-a-b''"
    by code_simp+
  have t: "\<not> marker_throws (Str ''a-b'')" by code_simp
  have n: "Str ''a-b'' \<noteq> Str ''default''" by simp
  have b: "body_class (page_init\<lparr>body_class := []\<rparr>) = []" by simp
  have c: "completed (setColorScheme e (Str ''a-b'') (page_init\<lparr>body_class := []\<rparr>))"
    by (simp add: completed_setColorScheme t)
  have first: "body_class (final_page (setColorScheme e (Str ''a-b'') (page_init\<lparr>body_class := []\<rparr>)))
       = ''color-a-b''"
    by (simp only: body_class_setColorScheme_any [OF n] b a sum.case)
  have "body_class (final_page (and_then
        (setColorScheme e (Str ''a-b'') (page_init\<lparr>body_class := []\<rparr>))
        (setColorScheme e (Str ''a-b'')))) =
      body_class (final_page (setColorScheme e (Str ''a-b'')
        (final_page (setColorScheme e (Str ''a-b'') (page_init\<lparr>body_class := []\<rparr>)))))"
    by (simp add: final_page_and_then c)
  also have "\<dots> = ''-b color-a-b''"
    by (simp only: body_class_setColorScheme_any [OF n] b a sum.case)
  finally show ?thesis using first by (simp add: color_schemes_def)
qed




end
